theory Spec2Isabelle
  imports Complex_Main
begin

section \<open>The dial queue of the connection manager\<close>

text \<open>
  A shallow embedding of \<^verbatim>\<open>DialQueue\<close> (\<^verbatim>\<open>src/unnamed/part_000\<close>): the submission
  path of \<^verbatim>\<open>dial\<close>, the job function it enqueues (address calculation followed by
  the serial attempt loop), \<^verbatim>\<open>calculateMultiaddrs\<close> and \<^verbatim>\<open>isDialable\<close>.

  Asynchronous calls are modelled by their outcome: a rejected promise is \<open>Inl err\<close>,
  a fulfilled one \<open>Inr v\<close>. The collaborators the class borrows (peer store, peer
  routing, transport manager, connection gater, the multiaddr library) are fields of
  records of functions, so every theorem holds for any behaviour of them.
\<close>

subsection \<open>Errors\<close>

text \<open>
  A thrown value with the two properties the code reads, \<^verbatim>\<open>name\<close> and \<^verbatim>\<open>message\<close>;
  an \<^verbatim>\<open>AggregateError\<close> also carries the list of errors it wraps.
\<close>

datatype error =
    Err string string
  | AggregateError "error list" string

fun err_name :: "error \<Rightarrow> string" where
  "err_name (Err n m) = n"
| "err_name (AggregateError es m) = ''AggregateError''"

fun err_message :: "error \<Rightarrow> string" where
  "err_message (Err n m) = m"
| "err_message (AggregateError es m) = m"

definition DialError :: "string \<Rightarrow> error" where
  "DialError m = Err ''DialError'' m"

definition TimeoutError :: "string \<Rightarrow> error" where
  "TimeoutError m = Err ''TimeoutError'' m"

definition DialDeniedError :: "string \<Rightarrow> error" where
  "DialDeniedError m = Err ''DialDeniedError'' m"

definition NoValidAddressesError :: "string \<Rightarrow> error" where
  "NoValidAddressesError m = Err ''NoValidAddressesError'' m"

text \<open>\<^verbatim>\<open>await\<close> followed by the rest of the function: a rejection skips the rest.\<close>

definition andThen :: "error + 'a \<Rightarrow> ('a \<Rightarrow> error + 'b) \<Rightarrow> error + 'b" where
  "andThen r f = (case r of Inl err \<Rightarrow> Inl err | Inr v \<Rightarrow> f v)"

text \<open>
  \<^verbatim>\<open>Promise.all(xs.map(f))\<close>, and a \<^verbatim>\<open>map\<close> whose callback may throw. When several
  elements fail the model reports the first in list order.
\<close>

fun allOf :: "('a \<Rightarrow> error + 'b) \<Rightarrow> 'a list \<Rightarrow> error + 'b list" where
  "allOf f [] = Inr []"
| "allOf f (x # xs) = andThen (f x) (\<lambda>y. andThen (allOf f xs) (\<lambda>ys. Inr (y # ys)))"

subsection \<open>Data model\<close>

text \<open>
  A \<^verbatim>\<open>PeerId\<close> is an opaque identity with \<^verbatim>\<open>equals\<close> and \<^verbatim>\<open>toString\<close>; it is
  identified with its string form and \<^verbatim>\<open>equals\<close> is equality. A \<^verbatim>\<open>Multiaddr\<close> is a
  value of an arbitrary type \<open>'ma\<close> whose \<^verbatim>\<open>equals\<close> is equality; everything else the
  code asks of it is an operation of \<open>MultiaddrLib\<close> below.
\<close>

type_synonym PeerId = string

record 'ma Address =
  multiaddr :: 'ma
  isCertified :: bool

datatype ConnectionStatus = Open | Closing | Closed

record 'ma Connection =
  remotePeer :: PeerId
  remoteAddr :: 'ma
  status :: ConnectionStatus

text \<open>
  The imports of the file: the multiaddr package (\<^verbatim>\<open>multiaddr(str)\<close>, \<^verbatim>\<open>toString\<close>,
  \<^verbatim>\<open>getPeerId\<close>, \<^verbatim>\<open>protos().pop()?.path === true\<close>, \<^verbatim>\<open>encapsulate\<close>),
  \<^verbatim>\<open>Circuit.matches\<close>, \<^verbatim>\<open>resolveMultiaddrs\<close> and \<^verbatim>\<open>defaultAddressSorter\<close>.
\<close>

record 'ma MultiaddrLib =
  fromString :: "string \<Rightarrow> error + 'ma"
  toString :: "'ma \<Rightarrow> string"
  getPeerId :: "'ma \<Rightarrow> PeerId option"
  lastProtoIsPath :: "'ma \<Rightarrow> bool"
  encapsulate :: "'ma \<Rightarrow> string \<Rightarrow> 'ma"
  Circuit_matches :: "'ma \<Rightarrow> bool"
  resolveMultiaddrs :: "'ma \<Rightarrow> error + 'ma list"
  defaultAddressSorter :: "'ma Address list \<Rightarrow> 'ma Address list"

text \<open>
  \<^verbatim>\<open>DialQueueComponents\<close>. The two gater methods are optional. The transport
  manager's \<^verbatim>\<open>dial\<close> takes the number of dials the job has made before this one, so
  that it may answer differently each time; \<^verbatim>\<open>dialTransportForMultiaddr\<close> is
  \<open>True\<close> when a transport is returned.
\<close>

record 'ma DialQueueComponents =
  components_peerId :: PeerId
  peerStore_get :: "PeerId \<Rightarrow> error + 'ma Address list"
  peerRouting_findPeer :: "PeerId \<Rightarrow> error + 'ma list"
  transportManager_dial :: "nat \<Rightarrow> 'ma \<Rightarrow> error + 'ma Connection"
  dialTransportForMultiaddr :: "'ma \<Rightarrow> bool"
  denyDialPeer :: "(PeerId \<Rightarrow> error + bool) option"
  denyDialMultiaddr :: "('ma \<Rightarrow> error + bool) option"

text \<open>
  A JavaScript \<^verbatim>\<open>number\<close>: a finite value (every finite double is a rational), or
  \<^verbatim>\<open>NaN\<close>, \<^verbatim>\<open>Infinity\<close> or \<^verbatim>\<open>-Infinity\<close>. The code compares the two limits of the
  configuration with counts only: \<^verbatim>\<open>count === limit\<close> and \<^verbatim>\<open>count >= limit\<close>.
\<close>

datatype Number = Finite rat | NaN | Infinity | NegInfinity

definition strictEquals :: "nat \<Rightarrow> Number \<Rightarrow> bool" where
  "strictEquals count limit = (case limit of Finite r \<Rightarrow> of_nat count = r | _ \<Rightarrow> False)"

definition greaterOrEqual :: "nat \<Rightarrow> Number \<Rightarrow> bool" where
  "greaterOrEqual count limit =
     (case limit of Finite r \<Rightarrow> r \<le> of_nat count | NegInfinity \<Rightarrow> True | _ \<Rightarrow> False)"

text \<open>
  \<^verbatim>\<open>DialerInit\<close>, after the constructor has applied the defaults (lines 95-97). The
  constructor stores the two limits as it gets them: any number, also a negative
  or a fractional one.
\<close>

record 'ma DialerInit =
  addressSorter :: "('ma Address \<Rightarrow> 'ma Address \<Rightarrow> int) option"
  maxDialQueueLength :: Number
  maxPeerAddrsToDial :: Number

text \<open>
  A \<^verbatim>\<open>Set<string>\<close> is the list of its elements in insertion order;
  \<^verbatim>\<open>Set_add\<close> is \<^verbatim>\<open>set.add(x)\<close> and \<^verbatim>\<open>new_Set\<close> is \<^verbatim>\<open>new Set(xs)\<close>.
\<close>

definition Set_add :: "string list \<Rightarrow> string \<Rightarrow> string list" where
  "Set_add s x = (if x \<in> set s then s else s @ [x])"

definition new_Set :: "string list \<Rightarrow> string list" where
  "new_Set xs = foldl Set_add [] xs"

text \<open>
  A \<^verbatim>\<open>Map<string, Address>\<close> is the list of its entries in insertion order;
  \<^verbatim>\<open>Map_set\<close> keeps the position of a key that is already present.
\<close>

definition Map_get :: "(string \<times> 'v) list \<Rightarrow> string \<Rightarrow> 'v option" where
  "Map_get m k = map_of m k"

fun Map_set :: "(string \<times> 'v) list \<Rightarrow> string \<Rightarrow> 'v \<Rightarrow> (string \<times> 'v) list" where
  "Map_set [] k v = [(k, v)]"
| "Map_set (e # m) k v = (if fst e = k then (k, v) # m else e # Map_set m k v)"

definition Map_values :: "(string \<times> 'v) list \<Rightarrow> 'v list" where
  "Map_values m = map snd m"

text \<open>
  \<^verbatim>\<open>Array.prototype.sort(compare)\<close>: a stable insertion sort, which is what every
  stable sort computes when the comparator is consistent.
\<close>

fun insertSorted :: "('a \<Rightarrow> 'a \<Rightarrow> int) \<Rightarrow> 'a \<Rightarrow> 'a list \<Rightarrow> 'a list" where
  "insertSorted cmp x [] = [x]"
| "insertSorted cmp x (y # ys) = (if cmp x y < 0 then x # y # ys else y # insertSorted cmp x ys)"

definition Array_sort :: "('a \<Rightarrow> 'a \<Rightarrow> int) \<Rightarrow> 'a list \<Rightarrow> 'a list" where
  "Array_sort cmp xs = foldl (\<lambda>sorted x. insertSorted cmp x sorted) [] xs"

subsection \<open>calculateMultiaddrs\<close>

definition uncertified :: "'ma \<Rightarrow> 'ma Address" where
  "uncertified ma = \<lparr>multiaddr = ma, isCertified = False\<rparr>"

text \<open>Lines 345-348: one uncertified record per string of the job's set.\<close>

definition seedAddrs :: "'ma MultiaddrLib \<Rightarrow> string list \<Rightarrow> error + 'ma Address list" where
  "seedAddrs lib multiaddrs =
     allOf (\<lambda>ma. andThen (fromString lib ma) (\<lambda>m. Inr (uncertified m))) multiaddrs"

text \<open>Lines 352-358: the self-dial check and the peer gate.\<close>

definition checkPeer :: "'ma DialQueueComponents \<Rightarrow> PeerId \<Rightarrow> error + unit" where
  "checkPeer components peerId =
     (if components_peerId components = peerId then Inl (DialError ''Tried to dial self'')
      else andThen (case denyDialPeer components of None \<Rightarrow> Inr False | Some deny \<Rightarrow> deny peerId)
        (\<lambda>denied. if denied
           then Inl (DialDeniedError ''The dial request is blocked by gater.allowDialPeer'')
           else Inr ()))"

text \<open>
  Lines 362-377: with no address yet, load the peer's addresses from the peer store.
  An error whose name is not \<^verbatim>\<open>NotFoundError\<close> is thrown again.
\<close>

definition loadFromPeerStore ::
  "'ma DialQueueComponents \<Rightarrow> PeerId \<Rightarrow> 'ma Address list \<Rightarrow> error + 'ma Address list" where
  "loadFromPeerStore components peerId addrs =
     (if addrs = [] then
        (case peerStore_get components peerId of
           Inr addresses \<Rightarrow> Inr (addrs @ addresses)
         | Inl err \<Rightarrow> (if err_name err \<noteq> ''NotFoundError'' then Inl err else Inr addrs))
      else Inr addrs)"

text \<open>
  Lines 381-404: with still no address, ask the peer routing. The \<^verbatim>\<open>catch\<close> block
  only logs (unless the name is \<^verbatim>\<open>NoPeerRoutersError\<close>) and throws nothing.
\<close>

definition lookupPeerRouting ::
  "'ma DialQueueComponents \<Rightarrow> PeerId \<Rightarrow> 'ma Address list \<Rightarrow> 'ma Address list" where
  "lookupPeerRouting components peerId addrs =
     (if addrs = [] then
        (case peerRouting_findPeer components peerId of
           Inr multiaddrs \<Rightarrow> addrs @ map uncertified multiaddrs
         | Inl err \<Rightarrow> addrs)
      else addrs)"

text \<open>Lines 351-405: the block guarded by \<^verbatim>\<open>peerId != null\<close>.\<close>

definition discoverAddrs ::
  "'ma DialQueueComponents \<Rightarrow> PeerId option \<Rightarrow> 'ma Address list \<Rightarrow> error + 'ma Address list" where
  "discoverAddrs components peerId addrs =
     (case peerId of
        None \<Rightarrow> Inr addrs
      | Some p \<Rightarrow>
          andThen (checkPeer components p) (\<lambda>_.
          andThen (loadFromPeerStore components p addrs) (\<lambda>loaded.
          Inr (lookupPeerRouting components p loaded))))"

text \<open>Lines 409-428: resolution, one-to-many, flattened.\<close>

definition resolveAddr :: "'ma MultiaddrLib \<Rightarrow> 'ma Address \<Rightarrow> error + 'ma Address list" where
  "resolveAddr lib addr =
     andThen (resolveMultiaddrs lib (multiaddr addr)) (\<lambda>result.
       Inr (case result of
              [m] \<Rightarrow> (if m = multiaddr addr then [addr] else map uncertified result)
            | _ \<Rightarrow> map uncertified result))"

definition resolveAddrs :: "'ma MultiaddrLib \<Rightarrow> 'ma Address list \<Rightarrow> error + 'ma Address list" where
  "resolveAddrs lib addrs = andThen (allOf (resolveAddr lib) addrs) (\<lambda>rs. Inr (concat rs))"

text \<open>Lines 431-451: append \<^verbatim>\<open>/p2p/<peerId>\<close> where it is missing.\<close>

definition appendPeerId :: "'ma MultiaddrLib \<Rightarrow> PeerId \<Rightarrow> 'ma Address \<Rightarrow> 'ma Address" where
  "appendPeerId lib peerId addr =
     (if lastProtoIsPath lib (multiaddr addr) then addr
      else if getPeerId lib (multiaddr addr) = None then
        \<lparr>multiaddr = encapsulate lib (multiaddr addr) (''/p2p/'' @ peerId),
         isCertified = isCertified addr\<rparr>
      else addr)"

definition appendPeerIds ::
  "'ma MultiaddrLib \<Rightarrow> PeerId option \<Rightarrow> 'ma Address list \<Rightarrow> 'ma Address list" where
  "appendPeerIds lib peerId resolvedAddresses =
     (case peerId of
        None \<Rightarrow> resolvedAddresses
      | Some p \<Rightarrow> map (appendPeerId lib p) resolvedAddresses)"

text \<open>Lines 453-468: the transport filter and the peer id consistency filter.\<close>

definition keepAddr ::
  "'ma MultiaddrLib \<Rightarrow> 'ma DialQueueComponents \<Rightarrow> PeerId option \<Rightarrow> 'ma Address \<Rightarrow> bool" where
  "keepAddr lib components peerId addr =
     (if \<not> dialTransportForMultiaddr components (multiaddr addr) then False
      else (case peerId of
              None \<Rightarrow> True
            | Some p \<Rightarrow> (case getPeerId lib (multiaddr addr) of
                          None \<Rightarrow> True
                        | Some addrPeerId \<Rightarrow> p = addrPeerId)))"

text \<open>
  Lines 470-485: deduplication. \<open>dedupeStep\<close> is one iteration of the loop; the
  assignment to \<^verbatim>\<open>existing.isCertified\<close> changes the record the map holds.
\<close>

definition dedupeStep ::
  "'ma MultiaddrLib \<Rightarrow> (string \<times> 'ma Address) list \<Rightarrow> 'ma Address \<Rightarrow> (string \<times> 'ma Address) list" where
  "dedupeStep lib dedupedAddrs addr =
     (let maStr = toString lib (multiaddr addr) in
      case Map_get dedupedAddrs maStr of
        Some existing \<Rightarrow>
          Map_set dedupedAddrs maStr
            (existing\<lparr>isCertified := isCertified existing \<or> isCertified addr \<or> False\<rparr>)
      | None \<Rightarrow> Map_set dedupedAddrs maStr addr)"

definition dedupeAddrs :: "'ma MultiaddrLib \<Rightarrow> 'ma Address list \<Rightarrow> 'ma Address list" where
  "dedupeAddrs lib filteredAddrs = Map_values (foldl (dedupeStep lib) [] filteredAddrs)"

text \<open>Lines 492-503: the multiaddr gate, in order.\<close>

fun gateAddrs :: "'ma DialQueueComponents \<Rightarrow> 'ma Address list \<Rightarrow> error + 'ma Address list" where
  "gateAddrs components [] = Inr []"
| "gateAddrs components (addr # rest) =
     (case denyDialMultiaddr components of
        None \<Rightarrow> andThen (gateAddrs components rest) (\<lambda>gated. Inr (addr # gated))
      | Some deny \<Rightarrow>
          andThen (deny (multiaddr addr)) (\<lambda>denied.
            if denied then gateAddrs components rest
            else andThen (gateAddrs components rest) (\<lambda>gated. Inr (addr # gated))))"

text \<open>Line 505.\<close>

definition sortAddrs ::
  "'ma MultiaddrLib \<Rightarrow> 'ma DialerInit \<Rightarrow> 'ma Address list \<Rightarrow> 'ma Address list" where
  "sortAddrs lib init gatedAdrs =
     (case addressSorter init of
        None \<Rightarrow> defaultAddressSorter lib gatedAdrs
      | Some cmp \<Rightarrow> Array_sort cmp gatedAdrs)"

text \<open>Lines 407-524: everything after address discovery.\<close>

definition finishAddrs ::
  "'ma MultiaddrLib \<Rightarrow> 'ma DialQueueComponents \<Rightarrow> 'ma DialerInit \<Rightarrow> PeerId option \<Rightarrow>
   'ma Address list \<Rightarrow> error + 'ma Address list" where
  "finishAddrs lib components init peerId addrs =
     andThen (resolveAddrs lib addrs) (\<lambda>resolved.
       let resolvedAddresses = appendPeerIds lib peerId resolved;
           filteredAddrs = filter (keepAddr lib components peerId) resolvedAddresses;
           dedupedMultiaddrs = dedupeAddrs lib filteredAddrs
       in if dedupedMultiaddrs = []
          then Inl (NoValidAddressesError ''The dial request has no valid addresses'')
          else andThen (gateAddrs components dedupedMultiaddrs) (\<lambda>gatedAdrs.
            let sortedGatedAddrs = sortAddrs lib init gatedAdrs
            in if sortedGatedAddrs = []
               then Inl (DialDeniedError
                 ''The connection gater denied all addresses in the dial request'')
               else Inr sortedGatedAddrs))"

definition calculateMultiaddrs ::
  "'ma MultiaddrLib \<Rightarrow> 'ma DialQueueComponents \<Rightarrow> 'ma DialerInit \<Rightarrow> PeerId option \<Rightarrow>
   string list \<Rightarrow> error + 'ma Address list" where
  "calculateMultiaddrs lib components init peerId multiaddrs =
     andThen (seedAddrs lib multiaddrs) (\<lambda>seed.
     andThen (discoverAddrs components peerId seed) (\<lambda>addrs.
     finishAddrs lib components init peerId addrs))"

subsection \<open>isDialable\<close>

datatype 'ma OneOrMany = One 'ma | Many "'ma list"

record IsDialableOptions =
  runOnLimitedConnection :: "bool option"

text \<open>
  Lines 526-549. The result type keeps the possibility of a rejection, so that its
  absence is a theorem; the \<^verbatim>\<open>catch\<close> block falls through to \<^verbatim>\<open>return false\<close>.
\<close>

definition isDialable ::
  "'ma MultiaddrLib \<Rightarrow> 'ma DialQueueComponents \<Rightarrow> 'ma DialerInit \<Rightarrow> 'ma OneOrMany \<Rightarrow>
   IsDialableOptions \<Rightarrow> error + bool" where
  "isDialable lib components init ma options =
     (let multiaddrs = (case ma of One m \<Rightarrow> [m] | Many ms \<Rightarrow> ms) in
      case andThen
             (calculateMultiaddrs lib components init None (new_Set (map (toString lib) multiaddrs)))
             (\<lambda>addresses.
                if runOnLimitedConnection options = Some False
                then Inr (find (\<lambda>addr. \<not> Circuit_matches lib (multiaddr addr)) addresses \<noteq> None)
                else Inr True) of
        Inr dialable \<Rightarrow> Inr dialable
      | Inl err \<Rightarrow> Inr False)"

subsection \<open>The job function: abort signal and attempt loop\<close>

text \<open>
  Modelled from the spec: the metadata keys of \<^verbatim>\<open>./constants.js\<close>, which is not among
  the source files (\<open>last-dial-success\<close>, \<open>last-dial-failure\<close>).
\<close>

definition LAST_DIAL_SUCCESS_KEY :: string where
  "LAST_DIAL_SUCCESS_KEY = ''last-dial-success''"

definition LAST_DIAL_FAILURE_KEY :: string where
  "LAST_DIAL_FAILURE_KEY = ''last-dial-failure''"

text \<open>
  What a job does to the outside, in order: progress events, transport dials and
  peer store merges (peer, multiaddrs, metadata key), and how the function ends,
  \<^verbatim>\<open>return conn\<close> or \<^verbatim>\<open>throw err\<close>, recorded where the statement stands. A merge that
  fails is caught and logged, so its outcome changes nothing that follows and is
  not recorded.
\<close>

datatype 'ma Effect =
    Progress string
  | TransportDial 'ma
  | PeerStoreMerge PeerId "'ma list" string
  | Returned "'ma Connection"
  | Thrown error

text \<open>
  Lines 329-337. The three sources of the composite signal; each says whether it
  has aborted when \<^verbatim>\<open>signal.aborted\<close> is read after the failure of dial number \<open>n\<close>
  of the job. \<^verbatim>\<open>anySignal\<close> is aborted as soon as one source is.
\<close>

record AbortSources =
  dialTimeout_fired :: "nat \<Rightarrow> bool"
  shutDownController_aborted :: "nat \<Rightarrow> bool"
  userSignal_aborted :: "(nat \<Rightarrow> bool) option"

definition createDialAbortController :: "AbortSources \<Rightarrow> nat \<Rightarrow> bool" where
  "createDialAbortController sources n =
     (dialTimeout_fired sources n \<or> shutDownController_aborted sources n \<or>
      (case userSignal_aborted sources of None \<Rightarrow> False | Some aborted \<Rightarrow> aborted n))"

text \<open>
  Lines 251-313: the loop over \<^verbatim>\<open>addrsToDial\<close> with its two variables \<^verbatim>\<open>dialed\<close> and
  \<^verbatim>\<open>errors\<close>, and the two \<^verbatim>\<open>throw\<close> statements after it.
\<close>

fun attemptLoop ::
  "'ma DialQueueComponents \<Rightarrow> Number \<Rightarrow> (nat \<Rightarrow> bool) \<Rightarrow> PeerId option \<Rightarrow> nat \<Rightarrow> error list \<Rightarrow>
   'ma Address list \<Rightarrow> 'ma Effect list \<times> (error + 'ma Connection)" where
  "attemptLoop components maxAddrs signal peerId dialed errors [] =
     (case errors of
        [e] \<Rightarrow> ([Thrown e], Inl e)
      | _ \<Rightarrow> ([Thrown (AggregateError errors ''All multiaddr dials failed'')],
              Inl (AggregateError errors ''All multiaddr dials failed'')))"
| "attemptLoop components maxAddrs signal peerId dialed errors (address # rest) =
     (if strictEquals dialed maxAddrs
      then ([Thrown (DialError ''Peer had more than maxPeerAddrsToDial'')],
            Inl (DialError ''Peer had more than maxPeerAddrsToDial''))
      else
        (case transportManager_dial components dialed (multiaddr address) of
           Inr conn \<Rightarrow>
             ([TransportDial (multiaddr address),
               PeerStoreMerge (remotePeer conn) [remoteAddr conn] LAST_DIAL_SUCCESS_KEY,
               Returned conn],
              Inr conn)
         | Inl err \<Rightarrow>
             (let recorded =
                    TransportDial (multiaddr address) #
                    (case peerId of
                       None \<Rightarrow> []
                     | Some p \<Rightarrow> [PeerStoreMerge p [] LAST_DIAL_FAILURE_KEY])
              in if signal dialed
                 then (recorded @ [Thrown (TimeoutError (err_message err))],
                       Inl (TimeoutError (err_message err)))
                 else (case attemptLoop components maxAddrs signal peerId (Suc dialed)
                              (errors @ [err]) rest of
                         (effects, outcome) \<Rightarrow> (recorded @ effects, outcome)))))"

text \<open>
  \<^verbatim>\<open>DialQueueJobOptions\<close>, the part of a queued job that \<^verbatim>\<open>dial\<close> reads and changes.
\<close>

record DialQueueJobOptions =
  job_peerId :: "PeerId option"
  job_priority :: int
  job_multiaddrs :: "string list"

text \<open>
  Lines 223-318, the function handed to \<^verbatim>\<open>queue.add\<close>. It works on the options of
  its own job: \<^verbatim>\<open>options.multiaddrs\<close> is the job's set.

  \<open>startDialJob\<close> is the first \<^verbatim>\<open>try\<close> block (lines 230-248): the address calculation
  and, when it succeeds, the growth of the job's set by the string form of every
  calculated address. It gives the job as it stands from then on, and the addresses.
\<close>

definition growJob ::
  "'ma MultiaddrLib \<Rightarrow> DialQueueJobOptions \<Rightarrow> 'ma Address list \<Rightarrow> DialQueueJobOptions" where
  "growJob lib job addrsToDial =
     job\<lparr>job_multiaddrs :=
           foldl Set_add (job_multiaddrs job)
             (map (\<lambda>addr. toString lib (multiaddr addr)) addrsToDial)\<rparr>"

definition startDialJob ::
  "'ma MultiaddrLib \<Rightarrow> 'ma DialQueueComponents \<Rightarrow> 'ma DialerInit \<Rightarrow> DialQueueJobOptions \<Rightarrow>
   error + DialQueueJobOptions \<times> 'ma Address list" where
  "startDialJob lib components init job =
     (case calculateMultiaddrs lib components init (job_peerId job) (job_multiaddrs job) of
        Inl err \<Rightarrow> Inl err
      | Inr addrsToDial \<Rightarrow> Inr (growJob lib job addrsToDial, addrsToDial))"

text \<open>
  The whole function: the first block, then the attempt loop (the second \<^verbatim>\<open>try\<close>
  block, lines 250-317). The result is the job as the function leaves it, what it
  did, and how its promise settles.
\<close>

definition dialJob ::
  "'ma MultiaddrLib \<Rightarrow> 'ma DialQueueComponents \<Rightarrow> 'ma DialerInit \<Rightarrow> AbortSources \<Rightarrow>
   DialQueueJobOptions \<Rightarrow> DialQueueJobOptions \<times> 'ma Effect list \<times> (error + 'ma Connection)" where
  "dialJob lib components init sources job =
     (let signal = createDialAbortController sources in
      case startDialJob lib components init job of
        Inl err \<Rightarrow> (job, [Progress ''dial-queue:start-dial'', Thrown err], Inl err)
      | Inr (grown, addrsToDial) \<Rightarrow>
          (case attemptLoop components (maxPeerAddrsToDial init) signal (job_peerId job) 0 []
                  addrsToDial of
             (effects, outcome) \<Rightarrow>
               (grown,
                Progress ''dial-queue:start-dial'' #
                Progress ''dial-queue:calculated-addresses'' # effects,
                outcome)))"

subsection \<open>dial\<close>

text \<open>
  The target is what \<^verbatim>\<open>getPeerAddress\<close> (\<^verbatim>\<open>../get-peer.js\<close>, not among the source
  files) returns for the argument of \<^verbatim>\<open>dial\<close>: an optional peer id and a list of
  multiaddrs.
\<close>

record 'ma PeerAddress =
  target_peerId :: "PeerId option"
  target_multiaddrs :: "'ma list"

record OpenConnectionOptions =
  force :: "bool option"
  priority :: "int option"

text \<open>Modelled from the spec: \<^verbatim>\<open>DEFAULT_DIAL_PRIORITY\<close> of \<^verbatim>\<open>./index.js\<close> (default 50).\<close>

definition DEFAULT_DIAL_PRIORITY :: int where
  "DEFAULT_DIAL_PRIORITY = 50"

text \<open>
  Modelled from the spec: the priority queue of \<^verbatim>\<open>@libp2p/utils\<close>. Its \<^verbatim>\<open>queue\<close> is
  the list of jobs that have not settled, \<^verbatim>\<open>size\<close> is its length, and \<^verbatim>\<open>add\<close> places
  a job behind every job of the same or a higher priority.
\<close>

definition queue_size :: "DialQueueJobOptions list \<Rightarrow> nat" where
  "queue_size queue = length queue"

fun queue_add :: "DialQueueJobOptions \<Rightarrow> DialQueueJobOptions list \<Rightarrow> DialQueueJobOptions list" where
  "queue_add job [] = [job]"
| "queue_add job (j # js) =
     (if job_priority j < job_priority job then job # j # js else j # queue_add job js)"

text \<open>\<^verbatim>\<open>Array.prototype.find\<close> on objects that are changed afterwards: the index.\<close>

fun findIndex :: "('a \<Rightarrow> bool) \<Rightarrow> 'a list \<Rightarrow> nat option" where
  "findIndex P [] = None"
| "findIndex P (x # xs) =
     (if P x then Some 0 else (case findIndex P xs of None \<Rightarrow> None | Some i \<Rightarrow> Some (Suc i)))"

text \<open>
  Lines 154-168. \<^verbatim>\<open>connections\<close> is the \<^verbatim>\<open>PeerMap\<close> as the list of its entries in
  iteration order.
\<close>

definition existingConnection ::
  "(PeerId \<times> 'ma Connection list) list \<Rightarrow> 'ma PeerAddress \<Rightarrow> OpenConnectionOptions \<Rightarrow>
   'ma Connection option" where
  "existingConnection connections target options =
     find (\<lambda>conn.
             if force options = Some True then False
             else if target_peerId target = Some (remotePeer conn) then True
             else find (\<lambda>addr. addr = remoteAddr conn) (target_multiaddrs target) \<noteq> None)
          (concat (map snd connections))"

text \<open>
  Lines 178-197: the predicate of \<^verbatim>\<open>this.queue.queue.find\<close>. Every job of this queue
  is created by \<^verbatim>\<open>dial\<close> with a set, so \<^verbatim>\<open>addresses == null\<close> never holds.
\<close>

definition jobMatches :: "'ma MultiaddrLib \<Rightarrow> 'ma PeerAddress \<Rightarrow> DialQueueJobOptions \<Rightarrow> bool" where
  "jobMatches lib target job =
     (if (case target_peerId target of None \<Rightarrow> False | Some p \<Rightarrow> job_peerId job = Some p)
      then True
      else list_ex (\<lambda>ma. toString lib ma \<in> set (job_multiaddrs job)) (target_multiaddrs target))"

text \<open>
  How a call of \<^verbatim>\<open>dial\<close> ends: it returns an existing connection, or the promise of
  the job at an index of the queue (joined, or newly added), or it throws.
\<close>

datatype 'ma DialResult =
    AlreadyConnected "'ma Connection"
  | JoinedJob nat
  | AddedJob DialQueueJobOptions
  | Rejected error

text \<open>Lines 202-205: a joining call adds the string forms of its multiaddrs to the job.\<close>

definition joinJob ::
  "'ma MultiaddrLib \<Rightarrow> 'ma PeerAddress \<Rightarrow> DialQueueJobOptions \<Rightarrow> DialQueueJobOptions" where
  "joinJob lib target job =
     job\<lparr>job_multiaddrs :=
           foldl Set_add (job_multiaddrs job) (map (toString lib) (target_multiaddrs target))\<rparr>"

text \<open>Lines 176-326: everything after the existing-connection check.\<close>

definition joinOrAdd ::
  "'ma MultiaddrLib \<Rightarrow> 'ma DialerInit \<Rightarrow> DialQueueJobOptions list \<Rightarrow> 'ma PeerAddress \<Rightarrow>
   OpenConnectionOptions \<Rightarrow> 'ma DialResult \<times> string list \<times> DialQueueJobOptions list" where
  "joinOrAdd lib init queue target options =
     (case findIndex (jobMatches lib target) queue of
        Some i \<Rightarrow>
          (JoinedJob i, [''dial-queue:already-in-dial-queue''],
           queue[i := joinJob lib target (queue ! i)])
      | None \<Rightarrow>
          (if greaterOrEqual (queue_size queue) (maxDialQueueLength init)
           then (Rejected (DialError ''Dial queue is full''), [], queue)
           else
             (let job = \<lparr>job_peerId = target_peerId target,
                         job_priority = (case priority options of
                                           None \<Rightarrow> DEFAULT_DIAL_PRIORITY
                                         | Some p \<Rightarrow> p),
                         job_multiaddrs = new_Set (map (toString lib) (target_multiaddrs target))\<rparr>
              in (AddedJob job, [''dial-queue:add-to-dial-queue''], queue_add job queue))))"

text \<open>
  Lines 149-327. The result is how the call ends, the progress events it emitted
  and the queue it leaves.
\<close>

definition dial ::
  "'ma MultiaddrLib \<Rightarrow> 'ma DialerInit \<Rightarrow> (PeerId \<times> 'ma Connection list) list \<Rightarrow>
   DialQueueJobOptions list \<Rightarrow> 'ma PeerAddress \<Rightarrow> OpenConnectionOptions \<Rightarrow>
   'ma DialResult \<times> string list \<times> DialQueueJobOptions list" where
  "dial lib init connections queue target options =
     (case existingConnection connections target options of
        None \<Rightarrow> joinOrAdd lib init queue target options
      | Some conn \<Rightarrow>
          (if status conn = Open
           then (AlreadyConnected conn, [''dial-queue:already-connected''], queue)
           else joinOrAdd lib init queue target options))"

section \<open>Definitions used to state the properties\<close>

subsection \<open>Reading a job's effects\<close>

text \<open>The addresses handed to \<^verbatim>\<open>transportManager.dial\<close>, in order.\<close>

fun transportDials :: "'ma Effect list \<Rightarrow> 'ma list" where
  "transportDials [] = []"
| "transportDials (TransportDial ma # effects) = ma # transportDials effects"
| "transportDials (_ # effects) = transportDials effects"

text \<open>
  The dials of \<open>addrs\<close>, made as dials number \<open>dialed\<close>, \<open>dialed + 1\<close>, ... of a job,
  fail with the errors \<open>errs\<close>, one each, and the composite signal is not aborted
  when it is read after each failure.
\<close>

fun allAttemptsFail ::
  "'ma DialQueueComponents \<Rightarrow> (nat \<Rightarrow> bool) \<Rightarrow> nat \<Rightarrow> 'ma Address list \<Rightarrow> error list \<Rightarrow> bool" where
  "allAttemptsFail components signal dialed [] [] = True"
| "allAttemptsFail components signal dialed (address # rest) (err # errs) =
     (transportManager_dial components dialed (multiaddr address) = Inl err \<and> \<not> signal dialed \<and>
      allAttemptsFail components signal (Suc dialed) rest errs)"
| "allAttemptsFail components signal dialed _ _ = False"

text \<open>
  The check \<^verbatim>\<open>dialed === maxPeerAddrsToDial\<close> is false at the head of \<open>n\<close> iterations
  of the loop, the first of them with \<^verbatim>\<open>dialed\<close> as given. For a cap that is a natural
  number and \<^verbatim>\<open>dialed = 0\<close> this says \<open>n \<le> cap\<close>.
\<close>

definition capNotReached :: "Number \<Rightarrow> nat \<Rightarrow> nat \<Rightarrow> bool" where
  "capNotReached maxAddrs dialed n =
     list_all (\<lambda>d. \<not> strictEquals d maxAddrs) [dialed..<dialed + n]"

text \<open>
  How a job function ended, as its effects record it: one entry for every
  \<^verbatim>\<open>return conn\<close> and every \<^verbatim>\<open>throw err\<close> it got to.
\<close>

fun settlements :: "'ma Effect list \<Rightarrow> (error + 'ma Connection) list" where
  "settlements [] = []"
| "settlements (Returned conn # effects) = Inr conn # settlements effects"
| "settlements (Thrown err # effects) = Inl err # settlements effects"
| "settlements (_ # effects) = settlements effects"

text \<open>The effect that records an outcome.\<close>

fun ending :: "error + 'ma Connection \<Rightarrow> 'ma Effect" where
  "ending (Inl err) = Thrown err"
| "ending (Inr conn) = Returned conn"

text \<open>
  Modelled from the spec: the promise that \<^verbatim>\<open>queue.add\<close> and \<^verbatim>\<open>job.join\<close> of the
  priority queue hand to a caller of \<^verbatim>\<open>dial\<close> (section 4.2: the job resolves or
  rejects all waiters identically, except that a waiter's own signal aborts that
  waiter's view). A caller whose own signal aborts first observes the rejection
  the queue gives it, \<open>Some err\<close>; any other caller observes what the job function
  of its job settles with.
\<close>

definition callerObserves ::
  "error option \<Rightarrow> 'ma Effect list \<Rightarrow> (error + 'ma Connection) list" where
  "callerObserves ownAbort effects =
     (case ownAbort of Some err \<Rightarrow> [Inl err] | None \<Rightarrow> settlements effects)"

text \<open>What failed dials of \<open>addrs\<close> leave behind: the dial, then the failure merge.\<close>

definition failureEffects :: "PeerId option \<Rightarrow> 'ma Address list \<Rightarrow> 'ma Effect list" where
  "failureEffects peerId addrs =
     concat (map (\<lambda>address. TransportDial (multiaddr address) #
                   (case peerId of
                      None \<Rightarrow> []
                    | Some p \<Rightarrow> [PeerStoreMerge p [] LAST_DIAL_FAILURE_KEY])) addrs)"

subsection \<open>Deduplication, as the specification words it\<close>

text \<open>
  The elements of a list that are the first with their key, each where it stands:
  element \<open>i\<close> stays when no earlier element has its key.
\<close>

definition firstOccurrences :: "('a \<Rightarrow> string) \<Rightarrow> 'a list \<Rightarrow> 'a list" where
  "firstOccurrences key xs =
     map (\<lambda>i. xs ! i) (filter (\<lambda>i. key (xs ! i) \<notin> key ` set (take i xs)) [0..<length xs])"

text \<open>Some record of \<open>addrs\<close> with the string form \<open>maStr\<close> is certified.\<close>

definition anyCertified :: "'ma MultiaddrLib \<Rightarrow> 'ma Address list \<Rightarrow> string \<Rightarrow> bool" where
  "anyCertified lib addrs maStr =
     list_ex (\<lambda>addr. toString lib (multiaddr addr) = maStr \<and> isCertified addr) addrs"

text \<open>The string form of a record's multiaddr, the key of the deduplication.\<close>

definition stringForm :: "'ma MultiaddrLib \<Rightarrow> 'ma Address \<Rightarrow> string" where
  "stringForm lib addr = toString lib (multiaddr addr)"

subsection \<open>Matching, as the specification words it\<close>

text \<open>
  A connection matches a target when its \<^verbatim>\<open>remotePeer\<close> equals the target's peer id
  or its \<^verbatim>\<open>remoteAddr\<close> equals one of the target's multiaddrs.
\<close>

definition connectionMatches :: "'ma PeerAddress \<Rightarrow> 'ma Connection \<Rightarrow> bool" where
  "connectionMatches target conn =
     (target_peerId target = Some (remotePeer conn) \<or>
      remoteAddr conn \<in> set (target_multiaddrs target))"

text \<open>
  A job matches a target when its \<^verbatim>\<open>peerId\<close> equals the target's peer id, or its set
  of address strings intersects the string forms of the target's multiaddrs.
\<close>

definition overlaps :: "'ma MultiaddrLib \<Rightarrow> 'ma PeerAddress \<Rightarrow> DialQueueJobOptions \<Rightarrow> bool" where
  "overlaps lib target job =
     ((target_peerId target \<noteq> None \<and> job_peerId job = target_peerId target) \<or>
      set (job_multiaddrs job) \<inter> set (map (toString lib) (target_multiaddrs target)) \<noteq> {})"

text \<open>
  The existing-connection check of \<^verbatim>\<open>dial\<close> returns: the connection that \<^verbatim>\<open>find\<close>
  yields is open.
\<close>

definition returnsExisting ::
  "(PeerId \<times> 'ma Connection list) list \<Rightarrow> 'ma PeerAddress \<Rightarrow> OpenConnectionOptions \<Rightarrow> bool" where
  "returnsExisting connections target options =
     (case existingConnection connections target options of
        None \<Rightarrow> False
      | Some conn \<Rightarrow> status conn = Open)"

subsection \<open>A small concrete setting\<close>

text \<open>The multiaddrs of the examples, by name.\<close>

abbreviation tcp1 :: string where
  "tcp1 \<equiv> ''/ip4/1.2.3.4/tcp/1''"

abbreviation tcp2 :: string where
  "tcp2 \<equiv> ''/ip4/1.2.3.4/tcp/2''"

abbreviation tcp3 :: string where
  "tcp3 \<equiv> ''/ip4/5.6.7.8/tcp/3''"

abbreviation tcp1Peer :: string where
  "tcp1Peer \<equiv> ''/ip4/1.2.3.4/tcp/1/p2p/QmPeer''"

abbreviation tcp2Peer :: string where
  "tcp2Peer \<equiv> ''/ip4/1.2.3.4/tcp/2/p2p/QmPeer''"

abbreviation relayed :: string where
  "relayed \<equiv> ''/ip4/9.9.9.9/tcp/4/p2p/QmRelay/p2p-circuit''"

text \<open>
  Multiaddrs are their own string form and resolution is the identity. The two
  addresses that end in \<^verbatim>\<open>/p2p/QmPeer\<close> carry that peer id, and one address is a
  circuit relay address.
\<close>

definition exampleLib :: "string MultiaddrLib" where
  "exampleLib =
     \<lparr>fromString = (\<lambda>s. Inr s), toString = (\<lambda>ma. ma),
      getPeerId = (\<lambda>ma. if ma = tcp1Peer \<or>
                            ma = tcp2Peer
                         then Some ''QmPeer'' else None),
      lastProtoIsPath = (\<lambda>ma. False), encapsulate = (\<lambda>ma s. ma @ s),
      Circuit_matches = (\<lambda>ma. ma = relayed),
      resolveMultiaddrs = (\<lambda>ma. Inr [ma]),
      defaultAddressSorter = (\<lambda>addrs. addrs)\<rparr>"

text \<open>
  The local peer is \<^verbatim>\<open>QmSelf\<close>; there is no gater; every transport dial is refused;
  the peer store knows no peer and the peer routing fails.
\<close>

definition exampleComponents :: "string DialQueueComponents" where
  "exampleComponents =
     \<lparr>components_peerId = ''QmSelf'',
      peerStore_get = (\<lambda>p. Inl (Err ''NotFoundError'' ''no such peer'')),
      peerRouting_findPeer = (\<lambda>p. Inl (Err ''QueryError'' ''routing failed'')),
      transportManager_dial = (\<lambda>n ma. Inl (Err ''ConnectionRefused'' ma)),
      dialTransportForMultiaddr = (\<lambda>ma. True),
      denyDialPeer = None, denyDialMultiaddr = None\<rparr>"

text \<open>The same components with a peer store that fails for another reason.\<close>

definition storeUnavailable :: "string DialQueueComponents" where
  "storeUnavailable =
     exampleComponents\<lparr>peerStore_get := (\<lambda>p. Inl (Err ''DatabaseError'' ''store is closed''))\<rparr>"

text \<open>The same components with a peer store that knows one address of the peer.\<close>

definition knownPeer :: "string DialQueueComponents" where
  "knownPeer = exampleComponents\<lparr>peerStore_get := (\<lambda>p. Inr [uncertified tcp1])\<rparr>"

text \<open>The same components with no transport for any address.\<close>

definition noTransports :: "string DialQueueComponents" where
  "noTransports = exampleComponents\<lparr>dialTransportForMultiaddr := (\<lambda>ma. False)\<rparr>"

text \<open>The default limits, a cap of one address per job, and a queue of one job.\<close>

definition exampleInit :: "string DialerInit" where
  "exampleInit =
     \<lparr>addressSorter = None, maxDialQueueLength = Finite 500, maxPeerAddrsToDial = Finite 25\<rparr>"

definition capOfOne :: "string DialerInit" where
  "capOfOne =
     \<lparr>addressSorter = None, maxDialQueueLength = Finite 500, maxPeerAddrsToDial = Finite 1\<rparr>"

definition queueOfOne :: "string DialerInit" where
  "queueOfOne =
     \<lparr>addressSorter = None, maxDialQueueLength = Finite 1, maxPeerAddrsToDial = Finite 25\<rparr>"

text \<open>A negative cap on the addresses of a job, and a fractional queue limit.\<close>

definition negativeCap :: "string DialerInit" where
  "negativeCap =
     \<lparr>addressSorter = None, maxDialQueueLength = Finite 500, maxPeerAddrsToDial = Finite (- 1)\<rparr>"

definition halfQueue :: "string DialerInit" where
  "halfQueue =
     \<lparr>addressSorter = None, maxDialQueueLength = Finite (1 / 2), maxPeerAddrsToDial = Finite 25\<rparr>"

text \<open>No source of the composite signal ever aborts.\<close>

definition neverAborted :: AbortSources where
  "neverAborted =
     \<lparr>dialTimeout_fired = (\<lambda>n. False), shutDownController_aborted = (\<lambda>n. False),
      userSignal_aborted = None\<rparr>"

text \<open>The dial timeout fires while the second dial of the job is under way.\<close>

definition timeoutDuringSecondDial :: AbortSources where
  "timeoutDuringSecondDial =
     \<lparr>dialTimeout_fired = (\<lambda>n. 1 \<le> n), shutDownController_aborted = (\<lambda>n. False),
      userSignal_aborted = None\<rparr>"

text \<open>\<^verbatim>\<open>{ runOnLimitedConnection: false }\<close> and \<^verbatim>\<open>{}\<close>.\<close>

definition unlimitedOnly :: IsDialableOptions where
  "unlimitedOnly = \<lparr>runOnLimitedConnection = Some False\<rparr>"

definition defaultOptions :: OpenConnectionOptions where
  "defaultOptions = \<lparr>force = None, priority = None\<rparr>"

text \<open>
  Jobs: one for two multiaddrs without a peer id, one for the peer \<^verbatim>\<open>QmPeer\<close> as
  \<^verbatim>\<open>dial(peerId)\<close> creates it, the same after its address calculation, and one for
  another peer.
\<close>

definition exampleJob :: DialQueueJobOptions where
  "exampleJob =
     \<lparr>job_peerId = None, job_priority = 50,
      job_multiaddrs = [tcp1, tcp2]\<rparr>"

definition peerJob :: DialQueueJobOptions where
  "peerJob = \<lparr>job_peerId = Some ''QmPeer'', job_priority = 50, job_multiaddrs = []\<rparr>"

definition grownJob :: DialQueueJobOptions where
  "grownJob =
     \<lparr>job_peerId = Some ''QmPeer'', job_priority = 50,
      job_multiaddrs = [tcp1Peer]\<rparr>"

definition otherJob :: DialQueueJobOptions where
  "otherJob =
     \<lparr>job_peerId = Some ''QmOther'', job_priority = 50,
      job_multiaddrs = [tcp3]\<rparr>"

text \<open>Targets: the peer \<^verbatim>\<open>QmPeer\<close>, and one multiaddr that names it.\<close>

definition peerTarget :: "string PeerAddress" where
  "peerTarget = \<lparr>target_peerId = Some ''QmPeer'', target_multiaddrs = []\<rparr>"

definition addrTarget :: "string PeerAddress" where
  "addrTarget =
     \<lparr>target_peerId = Some ''QmPeer'',
      target_multiaddrs = [tcp1Peer]\<rparr>"

text \<open>Connections to \<^verbatim>\<open>QmPeer\<close>.\<close>

definition closingConnection :: "string Connection" where
  "closingConnection =
     \<lparr>remotePeer = ''QmPeer'', remoteAddr = tcp1Peer,
      status = Closing\<rparr>"

definition openConnection :: "string Connection" where
  "openConnection =
     \<lparr>remotePeer = ''QmPeer'', remoteAddr = tcp2Peer,
      status = Open\<rparr>"

definition establishedConnection :: "string Connection" where
  "establishedConnection =
     \<lparr>remotePeer = ''QmPeer'', remoteAddr = tcp1Peer,
      status = Open\<rparr>"

section \<open>Properties\<close>

subsection \<open>The concrete setting\<close>

lemmas calc_defs = calculateMultiaddrs_def seedAddrs_def discoverAddrs_def finishAddrs_def
  resolveAddrs_def resolveAddr_def appendPeerIds_def keepAddr_def dedupeAddrs_def dedupeStep_def
  sortAddrs_def andThen_def uncertified_def Map_get_def Map_values_def

text \<open>The address calculation does not read the two limits.\<close>

lemma example_calc_any_limits:
  "addressSorter init = None \<Longrightarrow>
   calculateMultiaddrs exampleLib exampleComponents init None [tcp1, tcp2] =
     Inr [uncertified tcp1, uncertified tcp2]"
  by (simp add: calc_defs Let_def exampleLib_def exampleComponents_def)

lemma example_calc:
  "calculateMultiaddrs exampleLib exampleComponents exampleInit None [tcp1, tcp2] =
     Inr [uncertified tcp1, uncertified tcp2]"
  by (rule example_calc_any_limits) (simp add: exampleInit_def)

lemma example_calc_capOfOne:
  "calculateMultiaddrs exampleLib exampleComponents capOfOne None [tcp1, tcp2] =
     Inr [uncertified tcp1, uncertified tcp2]"
  by (rule example_calc_any_limits) (simp add: capOfOne_def)

lemma example_calc_negativeCap:
  "calculateMultiaddrs exampleLib exampleComponents negativeCap None [tcp1, tcp2] =
     Inr [uncertified tcp1, uncertified tcp2]"
  by (rule example_calc_any_limits) (simp add: negativeCap_def)

subsection \<open>The attempt loop\<close>

lemma transportDials_append:
  "transportDials (xs @ ys) = transportDials xs @ transportDials ys"
  by (induction xs rule: transportDials.induct) auto

lemma transportDials_failureEffects:
  "transportDials (failureEffects peerId addrs) = map multiaddr addrs"
  by (induction addrs) (auto simp: failureEffects_def split: option.splits)

lemma settlements_append: "settlements (xs @ ys) = settlements xs @ settlements ys"
  by (induction xs rule: settlements.induct) auto

lemma settlements_failureEffects: "settlements (failureEffects peerId addrs) = []"
  by (induction addrs) (auto simp: failureEffects_def split: option.splits)

lemma settlements_ending: "settlements [ending outcome] = [outcome]"
  by (cases outcome) simp_all

lemma allAttemptsFail_length:
  "allAttemptsFail components signal dialed addrs errs \<Longrightarrow> length errs = length addrs"
  by (induction components signal dialed addrs errs rule: allAttemptsFail.induct) auto

text \<open>The cap check over a run of iterations, taken apart at either end.\<close>

lemma capNotReached_Suc:
  "capNotReached maxAddrs dialed (Suc n) =
     (\<not> strictEquals dialed maxAddrs \<and> capNotReached maxAddrs (Suc dialed) n)"
  by (simp add: capNotReached_def upt_conv_Cons del: upt_Suc)

lemma capNotReached_last:
  "capNotReached maxAddrs dialed (Suc n) =
     (capNotReached maxAddrs dialed n \<and> \<not> strictEquals (dialed + n) maxAddrs)"
  by (simp add: capNotReached_def)

lemma strictEquals_nat: "strictEquals d (Finite (of_nat cap)) = (d = cap)"
  by (simp add: strictEquals_def)

lemma capNotReached_nat: "capNotReached (Finite (of_nat cap)) 0 n = (n \<le> cap)"
  by (auto simp: capNotReached_def list_all_iff strictEquals_nat)

text \<open>
  A run of failures that the cap does not cut short, with the signal not aborted,
  takes the loop to the rest of the list with \<^verbatim>\<open>dialed\<close> and \<^verbatim>\<open>errors\<close> grown
  accordingly.
\<close>

lemma attemptLoop_failures:
  "allAttemptsFail components signal dialed addrs errs \<Longrightarrow>
   capNotReached maxAddrs dialed (length addrs) \<Longrightarrow>
   attemptLoop components maxAddrs signal peerId dialed errors (addrs @ others) =
     (failureEffects peerId addrs @
        fst (attemptLoop components maxAddrs signal peerId (dialed + length addrs)
               (errors @ errs) others),
      snd (attemptLoop components maxAddrs signal peerId (dialed + length addrs)
             (errors @ errs) others))"
proof (induction components signal dialed addrs errs arbitrary: errors
       rule: allAttemptsFail.induct)
  case (1 components signal dialed)
  then show ?case by (simp add: failureEffects_def)
next
  case (2 components signal dialed address rest err errs)
  then show ?case
    by (simp add: failureEffects_def capNotReached_Suc split: prod.splits)
qed simp_all

lemma attemptLoop_abort:
  "\<not> strictEquals dialed maxAddrs \<Longrightarrow>
   transportManager_dial components dialed (multiaddr address) = Inl err \<Longrightarrow>
   signal dialed \<Longrightarrow>
   attemptLoop components maxAddrs signal peerId dialed errors (address # rest) =
     (failureEffects peerId [address] @ [Thrown (TimeoutError (err_message err))],
      Inl (TimeoutError (err_message err)))"
  by (simp add: failureEffects_def)

lemma attemptLoop_at_cap:
  "others \<noteq> [] \<Longrightarrow> strictEquals dialed maxAddrs \<Longrightarrow>
   attemptLoop components maxAddrs signal peerId dialed errors others =
     ([Thrown (DialError ''Peer had more than maxPeerAddrsToDial'')],
      Inl (DialError ''Peer had more than maxPeerAddrsToDial''))"
  by (cases others) simp_all

lemma attemptLoop_all_failed:
  "attemptLoop components maxAddrs signal peerId dialed errors [] =
     ([Thrown (case errors of
                 [e] \<Rightarrow> e
               | _ \<Rightarrow> AggregateError errors ''All multiaddr dials failed'')],
      Inl (case errors of
             [e] \<Rightarrow> e
           | _ \<Rightarrow> AggregateError errors ''All multiaddr dials failed''))"
  by (simp split: list.splits)

lemma dialJob_calculated:
  "calculateMultiaddrs lib components init (job_peerId job) (job_multiaddrs job) = Inr addrsToDial \<Longrightarrow>
   dialJob lib components init sources job =
     (growJob lib job addrsToDial,
      Progress ''dial-queue:start-dial'' # Progress ''dial-queue:calculated-addresses'' #
        fst (attemptLoop components (maxPeerAddrsToDial init) (createDialAbortController sources)
               (job_peerId job) 0 [] addrsToDial),
      snd (attemptLoop components (maxPeerAddrsToDial init) (createDialAbortController sources)
             (job_peerId job) 0 [] addrsToDial))"
  by (simp add: dialJob_def startDialJob_def case_prod_beta Let_def)

lemma dialJob_not_calculated:
  "calculateMultiaddrs lib components init (job_peerId job) (job_multiaddrs job) = Inl err \<Longrightarrow>
   dialJob lib components init sources job =
     (job, [Progress ''dial-queue:start-dial'', Thrown err], Inl err)"
  by (simp add: dialJob_def startDialJob_def)

text \<open>
  C4. A job whose calculated addresses are \<open>tried @ address # rest\<close>: the dials of
  \<open>tried\<close> failed with the signal not aborted and the cap check has not fired (so
  the loop goes on to \<open>address\<close>; for a cap that is a natural number this says
  \<open>length tried < cap\<close>), the dial of \<open>address\<close> fails with \<open>err\<close>, and the composite
  signal of timeout, shutdown and user signal is aborted when it is read
  afterwards. Then the job rejects with a \<^verbatim>\<open>TimeoutError\<close> carrying the message of
  \<open>err\<close>, and the transport dials of the job are those of \<open>tried\<close> and \<open>address\<close>: no
  address of \<open>rest\<close> is dialed.
\<close>

theorem dialJob_signal_aborted:
  assumes calc: "calculateMultiaddrs lib components init (job_peerId job) (job_multiaddrs job) =
                   Inr (tried @ address # rest)"
    and earlier: "allAttemptsFail components (createDialAbortController sources) 0 tried errs"
    and cap: "capNotReached (maxPeerAddrsToDial init) 0 (Suc (length tried))"
    and fails: "transportManager_dial components (length tried) (multiaddr address) = Inl err"
    and aborted: "createDialAbortController sources (length tried)"
  shows "snd (snd (dialJob lib components init sources job)) =
           Inl (TimeoutError (err_message err)) \<and>
         transportDials (fst (snd (dialJob lib components init sources job))) =
           map multiaddr (tried @ [address])"
proof -
  let ?signal = "createDialAbortController sources"
  from cap have before: "capNotReached (maxPeerAddrsToDial init) 0 (length tried)"
    and here: "\<not> strictEquals (length tried) (maxPeerAddrsToDial init)"
    by (simp_all add: capNotReached_last)
  have stop: "attemptLoop components (maxPeerAddrsToDial init) ?signal (job_peerId job)
                (0 + length tried) ([] @ errs) (address # rest) =
              (failureEffects (job_peerId job) [address] @
                 [Thrown (TimeoutError (err_message err))],
               Inl (TimeoutError (err_message err)))"
    using here fails aborted by (intro attemptLoop_abort) simp_all
  have "attemptLoop components (maxPeerAddrsToDial init) ?signal (job_peerId job) 0 []
          (tried @ address # rest) =
        (failureEffects (job_peerId job) tried @ failureEffects (job_peerId job) [address] @
           [Thrown (TimeoutError (err_message err))],
         Inl (TimeoutError (err_message err)))"
    using attemptLoop_failures [OF earlier before, of "job_peerId job" "[]" "address # rest"]
    by (simp only: stop) simp
  then show ?thesis
    by (simp add: dialJob_calculated [OF calc] transportDials_append
        transportDials_failureEffects)
qed

theorem dialJob_signal_aborted_witness:
  "calculateMultiaddrs exampleLib exampleComponents exampleInit (job_peerId exampleJob)
     (job_multiaddrs exampleJob) = Inr ([uncertified tcp1] @ uncertified tcp2 # []) \<and>
   allAttemptsFail exampleComponents (createDialAbortController timeoutDuringSecondDial) 0
     [uncertified tcp1] [Err ''ConnectionRefused'' tcp1] \<and>
   capNotReached (maxPeerAddrsToDial exampleInit) 0 (Suc (length [uncertified tcp1])) \<and>
   createDialAbortController timeoutDuringSecondDial 1 \<and>
   snd (snd (dialJob exampleLib exampleComponents exampleInit timeoutDuringSecondDial exampleJob)) =
     Inl (TimeoutError tcp2) \<and>
   transportDials
     (fst (snd (dialJob exampleLib exampleComponents exampleInit timeoutDuringSecondDial
        exampleJob))) = [tcp1, tcp2]"
proof -
  have calc: "calculateMultiaddrs exampleLib exampleComponents exampleInit (job_peerId exampleJob)
      (job_multiaddrs exampleJob) = Inr ([uncertified tcp1] @ uncertified tcp2 # [])"
    by (simp add: exampleJob_def example_calc)
  have earlier: "allAttemptsFail exampleComponents
      (createDialAbortController timeoutDuringSecondDial) 0
      [uncertified tcp1] [Err ''ConnectionRefused'' tcp1]"
    by (simp add: exampleComponents_def createDialAbortController_def
        timeoutDuringSecondDial_def uncertified_def)
  have cap: "capNotReached (maxPeerAddrsToDial exampleInit) 0 (Suc (length [uncertified tcp1]))"
    by (simp add: exampleInit_def capNotReached_def strictEquals_def)
  have fails: "transportManager_dial exampleComponents (length [uncertified tcp1])
      (multiaddr (uncertified tcp2)) = Inl (Err ''ConnectionRefused'' tcp2)"
    by (simp add: exampleComponents_def uncertified_def)
  have aborted: "createDialAbortController timeoutDuringSecondDial (length [uncertified tcp1])"
    by (simp add: createDialAbortController_def timeoutDuringSecondDial_def)
  show ?thesis
    using dialJob_signal_aborted [OF calc earlier cap fails aborted] calc earlier cap aborted
    by (simp add: uncertified_def)
qed

text \<open>With a cap that is a natural number the loop dials at most that often.\<close>

lemma attemptLoop_dials_bounded:
  "dialed \<le> cap \<Longrightarrow>
   length (transportDials (fst (attemptLoop components (Finite (of_nat cap)) signal peerId dialed
      errors addrs))) \<le> cap - dialed"
proof (induction addrs arbitrary: dialed errors)
  case Nil
  then show ?case by (simp split: list.splits)
next
  case (Cons address rest)
  show ?case
  proof (cases "dialed = cap")
    case True
    then show ?thesis by (simp add: strictEquals_nat)
  next
    case False
    with Cons.prems have lt: "Suc dialed \<le> cap" by simp
    show ?thesis
    proof (cases "transportManager_dial components dialed (multiaddr address)")
      case (Inr conn)
      with False lt show ?thesis by (simp add: strictEquals_nat)
    next
      case (Inl err)
      have "length (transportDials (fst (attemptLoop components (Finite (of_nat cap)) signal
              peerId (Suc dialed) (errors @ [err]) rest))) \<le> cap - Suc dialed"
        using Cons.IH [OF lt] .
      with False lt Inl show ?thesis
        by (auto simp: transportDials_append strictEquals_nat Let_def
            split: prod.splits option.splits)
    qed
  qed
qed

lemma dialJob_dials_bounded:
  assumes "maxPeerAddrsToDial init = Finite (of_nat cap)"
  shows "length (transportDials (fst (snd (dialJob lib components init sources job)))) \<le> cap"
proof (cases "calculateMultiaddrs lib components init (job_peerId job) (job_multiaddrs job)")
  case (Inl err)
  then show ?thesis by (simp add: dialJob_not_calculated)
next
  case (Inr addrsToDial)
  have "length (transportDials (fst (attemptLoop components (Finite (of_nat cap))
          (createDialAbortController sources) (job_peerId job) 0 [] addrsToDial)))
        \<le> cap - 0"
    by (rule attemptLoop_dials_bounded) simp
  with Inr assms show ?thesis
    by (simp add: dialJob_calculated)
qed

lemma dialJob_cap_reached:
  assumes nat: "maxPeerAddrsToDial init = Finite (of_nat cap)"
    and calc: "calculateMultiaddrs lib components init (job_peerId job) (job_multiaddrs job) =
                 Inr addrsToDial"
    and more: "cap < length addrsToDial"
    and fail: "allAttemptsFail components (createDialAbortController sources) 0
                 (take cap addrsToDial) errs"
  shows "snd (snd (dialJob lib components init sources job)) =
           Inl (DialError ''Peer had more than maxPeerAddrsToDial'') \<and>
         transportDials (fst (snd (dialJob lib components init sources job))) =
           map multiaddr (take cap addrsToDial)"
proof -
  let ?max = "Finite (of_nat cap)"
  let ?signal = "createDialAbortController sources"
  have len: "length (take cap addrsToDial) = cap" using more by simp
  have rest: "drop cap addrsToDial \<noteq> []" using more by simp
  have below: "capNotReached ?max 0 (length (take cap addrsToDial))"
    by (simp add: capNotReached_nat)
  have "attemptLoop components ?max ?signal (job_peerId job) 0 []
          (take cap addrsToDial @ drop cap addrsToDial) =
        (failureEffects (job_peerId job) (take cap addrsToDial) @
           [Thrown (DialError ''Peer had more than maxPeerAddrsToDial'')],
         Inl (DialError ''Peer had more than maxPeerAddrsToDial''))"
    using attemptLoop_failures [OF fail below, of "job_peerId job" "[]" "drop cap addrsToDial"]
      attemptLoop_at_cap [OF rest, of cap ?max components ?signal "job_peerId job" "[] @ errs"]
    by (simp only: len add_0 fst_conv snd_conv strictEquals_nat)
  then show ?thesis
    by (simp add: dialJob_calculated [OF calc] nat transportDials_append
        transportDials_failureEffects)
qed

text \<open>
  C2, amended. When \<^verbatim>\<open>maxPeerAddrsToDial\<close> is a natural number, the transport dials of
  a job never number more than it, whatever the collaborators do. When the job has
  more calculated addresses than the cap and the loop gets to the cap (the dials
  of the first \<^verbatim>\<open>maxPeerAddrsToDial\<close> addresses failed with the signal not aborted, so
  none has succeeded and addresses remain), the job rejects with
  \<^verbatim>\<open>DialError("Peer had more than maxPeerAddrsToDial")\<close> and its transport dials are
  exactly those of the addresses before the cap.
\<close>

theorem dialJob_dial_cap:
  "maxPeerAddrsToDial init = Finite (of_nat cap) \<longrightarrow>
   length (transportDials (fst (snd (dialJob lib components init sources job)))) \<le> cap \<and>
   (calculateMultiaddrs lib components init (job_peerId job) (job_multiaddrs job) =
      Inr addrsToDial \<and>
    cap < length addrsToDial \<and>
    allAttemptsFail components (createDialAbortController sources) 0
      (take cap addrsToDial) errs \<longrightarrow>
    snd (snd (dialJob lib components init sources job)) =
      Inl (DialError ''Peer had more than maxPeerAddrsToDial'') \<and>
    transportDials (fst (snd (dialJob lib components init sources job))) =
      map multiaddr (take cap addrsToDial))"
  using dialJob_dials_bounded dialJob_cap_reached by blast

theorem dialJob_dial_cap_witness:
  "maxPeerAddrsToDial capOfOne = Finite (of_nat 1) \<and>
   calculateMultiaddrs exampleLib exampleComponents capOfOne (job_peerId exampleJob)
     (job_multiaddrs exampleJob) = Inr [uncertified tcp1, uncertified tcp2] \<and>
   1 < length [uncertified tcp1, uncertified tcp2] \<and>
   allAttemptsFail exampleComponents (createDialAbortController neverAborted) 0
     (take 1 [uncertified tcp1, uncertified tcp2])
     [Err ''ConnectionRefused'' tcp1] \<and>
   length (transportDials (fst (snd (dialJob exampleLib exampleComponents capOfOne neverAborted
     exampleJob)))) \<le> 1 \<and>
   snd (snd (dialJob exampleLib exampleComponents capOfOne neverAborted exampleJob)) =
     Inl (DialError ''Peer had more than maxPeerAddrsToDial'') \<and>
   transportDials (fst (snd (dialJob exampleLib exampleComponents capOfOne neverAborted
     exampleJob))) = [tcp1]"
proof -
  have nat: "maxPeerAddrsToDial capOfOne = Finite (of_nat 1)"
    by (simp add: capOfOne_def)
  have calc: "calculateMultiaddrs exampleLib exampleComponents capOfOne (job_peerId exampleJob)
      (job_multiaddrs exampleJob) = Inr [uncertified tcp1, uncertified tcp2]"
    by (simp add: exampleJob_def example_calc_capOfOne)
  have more: "1 < length [uncertified tcp1, uncertified tcp2]"
    by simp
  have fail: "allAttemptsFail exampleComponents (createDialAbortController neverAborted) 0
      (take 1 [uncertified tcp1, uncertified tcp2])
      [Err ''ConnectionRefused'' tcp1]"
    by (simp add: exampleComponents_def createDialAbortController_def
        neverAborted_def uncertified_def)
  show ?thesis
    using dialJob_dial_cap [of capOfOne 1 exampleLib exampleComponents neverAborted exampleJob
        "[uncertified tcp1, uncertified tcp2]" "[Err ''ConnectionRefused'' tcp1]"]
      nat calc more fail
    by (simp add: uncertified_def)
qed

text \<open>
  C2, as stated, fails for a cap that is not a natural number: the check
  \<^verbatim>\<open>dialed === maxPeerAddrsToDial\<close> then never holds. With a cap of \<open>-1\<close> and two
  calculated addresses whose dials fail, the job dials both, which is more than
  the cap, and rejects with the \<^verbatim>\<open>AggregateError\<close>, not with the \<^verbatim>\<open>DialError\<close>.
\<close>

theorem dialJob_negative_cap_counterexample:
  "maxPeerAddrsToDial negativeCap = Finite (- 1) \<and>
   transportDials (fst (snd (dialJob exampleLib exampleComponents negativeCap neverAborted
     exampleJob))) = [tcp1, tcp2] \<and>
   \<not> (of_nat (length [tcp1, tcp2]) \<le> (- 1 :: rat)) \<and>
   snd (snd (dialJob exampleLib exampleComponents negativeCap neverAborted exampleJob)) =
     Inl (AggregateError [Err ''ConnectionRefused'' tcp1, Err ''ConnectionRefused'' tcp2]
            ''All multiaddr dials failed'')"
proof -
  have calc: "calculateMultiaddrs exampleLib exampleComponents negativeCap (job_peerId exampleJob)
      (job_multiaddrs exampleJob) = Inr [uncertified tcp1, uncertified tcp2]"
    by (simp add: exampleJob_def example_calc_negativeCap)
  show ?thesis
    unfolding dialJob_calculated [OF calc]
    by (simp add: negativeCap_def exampleComponents_def exampleJob_def strictEquals_def
        createDialAbortController_def neverAborted_def uncertified_def)
qed

text \<open>
  C3, as stated, fails when the cap cuts the loop short. With a cap of one and two
  calculated addresses, exactly one address is attempted, its dial fails and the
  signal is not aborted, yet the job does not reject with that address's own error:
  the next iteration throws the \<^verbatim>\<open>DialError\<close> of the cap.
\<close>

theorem dialJob_single_attempt_counterexample:
  "transportDials (fst (snd (dialJob exampleLib exampleComponents capOfOne neverAborted
     exampleJob))) = [tcp1] \<and>
   transportManager_dial exampleComponents 0 tcp1 = Inl (Err ''ConnectionRefused'' tcp1) \<and>
   \<not> createDialAbortController neverAborted 0 \<and>
   snd (snd (dialJob exampleLib exampleComponents capOfOne neverAborted exampleJob)) \<noteq>
     Inl (Err ''ConnectionRefused'' tcp1)"
proof -
  have calc: "calculateMultiaddrs exampleLib exampleComponents capOfOne (job_peerId exampleJob)
      (job_multiaddrs exampleJob) = Inr [uncertified tcp1, uncertified tcp2]"
    by (simp add: exampleJob_def example_calc_capOfOne)
  show ?thesis
    unfolding dialJob_calculated [OF calc]
    by (simp add: capOfOne_def exampleComponents_def exampleJob_def strictEquals_def
        createDialAbortController_def neverAborted_def uncertified_def DialError_def)
qed

lemma dialJob_loop_completed:
  assumes calc: "calculateMultiaddrs lib components init (job_peerId job) (job_multiaddrs job) =
                   Inr addrsToDial"
    and fail: "allAttemptsFail components (createDialAbortController sources) 0 addrsToDial errs"
    and cap: "capNotReached (maxPeerAddrsToDial init) 0 (length addrsToDial)"
  shows "snd (snd (dialJob lib components init sources job)) =
           Inl (if length addrsToDial = 1 then hd errs
                else AggregateError errs ''All multiaddr dials failed'') \<and>
         transportDials (fst (snd (dialJob lib components init sources job))) =
           map multiaddr addrsToDial"
proof -
  let ?max = "maxPeerAddrsToDial init"
  let ?signal = "createDialAbortController sources"
  let ?thrown = "case errs of [e] \<Rightarrow> e | _ \<Rightarrow> AggregateError errs ''All multiaddr dials failed''"
  have len: "length errs = length addrsToDial"
    using fail by (rule allAttemptsFail_length)
  have "attemptLoop components ?max ?signal (job_peerId job) 0 [] (addrsToDial @ []) =
        (failureEffects (job_peerId job) addrsToDial @ [Thrown ?thrown], Inl ?thrown)"
    using attemptLoop_failures [OF fail cap, of "job_peerId job" "[]" "[]"]
    by (simp add: attemptLoop_all_failed del: attemptLoop.simps)
  moreover have "?thrown =
      (if length addrsToDial = 1 then hd errs
       else AggregateError errs ''All multiaddr dials failed'')"
    using len by (cases errs) (auto split: list.splits)
  ultimately show ?thesis
    by (simp add: dialJob_calculated [OF calc] transportDials_append
        transportDials_failureEffects)
qed

text \<open>
  In every case the effects of the loop end with the \<^verbatim>\<open>return\<close> or \<^verbatim>\<open>throw\<close> that
  gives its outcome, and nothing before it is a \<^verbatim>\<open>return\<close> or a \<^verbatim>\<open>throw\<close>.
\<close>

lemma attemptLoop_ends:
  "\<exists>before.
     fst (attemptLoop components maxAddrs signal peerId dialed errors addrs) =
       before @ [ending (snd (attemptLoop components maxAddrs signal peerId dialed errors addrs))] \<and>
     settlements before = []"
proof (induction addrs arbitrary: dialed errors)
  case Nil
  show ?case
    by (rule exI [of _ "[]"]) (simp split: list.splits)
next
  case (Cons address rest)
  show ?case
  proof (cases "strictEquals dialed maxAddrs")
    case True
    then show ?thesis
      by (intro exI [of _ "[]"]) simp
  next
    case False
    show ?thesis
    proof (cases "transportManager_dial components dialed (multiaddr address)")
      case (Inr conn)
      with False show ?thesis
        by (intro exI [of _ "[TransportDial (multiaddr address),
              PeerStoreMerge (remotePeer conn) [remoteAddr conn] LAST_DIAL_SUCCESS_KEY]"]) simp
    next
      case (Inl err)
      let ?recorded = "failureEffects peerId [address]"
      show ?thesis
      proof (cases "signal dialed")
        case True
        with False Inl show ?thesis
          by (intro exI [of _ ?recorded])
            (simp add: attemptLoop_abort settlements_failureEffects del: attemptLoop.simps)
      next
        case False
        note running = this
        from Cons.IH [of "Suc dialed" "errors @ [err]"]
        obtain before where before:
          "fst (attemptLoop components maxAddrs signal peerId (Suc dialed) (errors @ [err]) rest) =
             before @ [ending (snd (attemptLoop components maxAddrs signal peerId (Suc dialed)
               (errors @ [err]) rest))]"
          "settlements before = []"
          by blast
        have step: "attemptLoop components maxAddrs signal peerId dialed errors (address # rest) =
            (?recorded @ fst (attemptLoop components maxAddrs signal peerId (Suc dialed)
                                (errors @ [err]) rest),
             snd (attemptLoop components maxAddrs signal peerId (Suc dialed)
                    (errors @ [err]) rest))"
          using \<open>\<not> strictEquals dialed maxAddrs\<close> Inl running
          by (simp add: failureEffects_def case_prod_beta)
        show ?thesis
          by (intro exI [of _ "?recorded @ before"])
            (simp add: step before settlements_append settlements_failureEffects
              del: attemptLoop.simps)
      qed
    qed
  qed
qed

lemma dialJob_ends:
  "\<exists>before.
     fst (snd (dialJob lib components init sources job)) =
       before @ [ending (snd (snd (dialJob lib components init sources job)))] \<and>
     settlements before = []"
proof (cases "calculateMultiaddrs lib components init (job_peerId job) (job_multiaddrs job)")
  case (Inl err)
  show ?thesis
    by (rule exI [of _ "[Progress ''dial-queue:start-dial'']"])
      (simp add: dialJob_not_calculated [OF Inl])
next
  case (Inr addrsToDial)
  from attemptLoop_ends [of components "maxPeerAddrsToDial init"
      "createDialAbortController sources" "job_peerId job" 0 "[]" addrsToDial]
  obtain before where before:
    "fst (attemptLoop components (maxPeerAddrsToDial init) (createDialAbortController sources)
            (job_peerId job) 0 [] addrsToDial) =
       before @ [ending (snd (attemptLoop components (maxPeerAddrsToDial init)
         (createDialAbortController sources) (job_peerId job) 0 [] addrsToDial))]"
    "settlements before = []"
    by blast
  show ?thesis
    by (rule exI [of _ "Progress ''dial-queue:start-dial'' #
          Progress ''dial-queue:calculated-addresses'' # before"])
      (simp add: dialJob_calculated [OF Inr] before)
qed

text \<open>
  C3, amended. When the loop goes through all calculated addresses (the cap check
  never fires; for a cap that is a natural number, the addresses are no more than
  \<^verbatim>\<open>maxPeerAddrsToDial\<close>), every dial fails and the signal is not aborted after any
  of them: with exactly one address the job rejects with that address's own error,
  otherwise with one \<^verbatim>\<open>AggregateError\<close> that wraps the errors of all addresses in
  order, with the message \<^verbatim>\<open>All multiaddr dials failed\<close>; every address is dialed
  once. And in all cases, whatever the addresses, the transports and the signal,
  the caller observes exactly one rejection or one connection: the job function
  gets to exactly one \<^verbatim>\<open>return\<close> or \<^verbatim>\<open>throw\<close>, which is the last thing it does and is
  what a caller observes, unless the caller's own signal aborts first, and then
  the caller observes that one rejection.
\<close>

theorem dialJob_all_dials_failed:
  "(calculateMultiaddrs lib components init (job_peerId job) (job_multiaddrs job) =
      Inr addrsToDial \<and>
    allAttemptsFail components (createDialAbortController sources) 0 addrsToDial errs \<and>
    capNotReached (maxPeerAddrsToDial init) 0 (length addrsToDial) \<longrightarrow>
    snd (snd (dialJob lib components init sources job)) =
      Inl (if length addrsToDial = 1 then hd errs
           else AggregateError errs ''All multiaddr dials failed'') \<and>
    transportDials (fst (snd (dialJob lib components init sources job))) =
      map multiaddr addrsToDial) \<and>
   (\<exists>before.
      fst (snd (dialJob lib components init sources job)) =
        before @ [ending (snd (snd (dialJob lib components init sources job)))] \<and>
      settlements before = []) \<and>
   callerObserves None (fst (snd (dialJob lib components init sources job))) =
     [snd (snd (dialJob lib components init sources job))] \<and>
   length (callerObserves ownAbort (fst (snd (dialJob lib components init sources job)))) = 1"
proof -
  from dialJob_ends [of lib components init sources job]
  obtain before where before:
    "fst (snd (dialJob lib components init sources job)) =
       before @ [ending (snd (snd (dialJob lib components init sources job)))]"
    "settlements before = []"
    by blast
  have once: "settlements (fst (snd (dialJob lib components init sources job))) =
      [snd (snd (dialJob lib components init sources job))]"
    by (subst before(1)) (simp add: settlements_append before(2) settlements_ending)
  have observed: "callerObserves None (fst (snd (dialJob lib components init sources job))) =
      [snd (snd (dialJob lib components init sources job))]"
    by (simp add: callerObserves_def once)
  have one: "length (callerObserves ownAbort
      (fst (snd (dialJob lib components init sources job)))) = 1"
    by (cases ownAbort) (simp_all add: callerObserves_def once)
  show ?thesis
    using dialJob_loop_completed [of lib components init job addrsToDial sources errs]
      before observed one
    by blast
qed

theorem dialJob_all_dials_failed_witness:
  "calculateMultiaddrs exampleLib exampleComponents exampleInit (job_peerId exampleJob)
     (job_multiaddrs exampleJob) = Inr [uncertified tcp1, uncertified tcp2] \<and>
   allAttemptsFail exampleComponents (createDialAbortController neverAborted) 0
     [uncertified tcp1, uncertified tcp2]
     [Err ''ConnectionRefused'' tcp1, Err ''ConnectionRefused'' tcp2] \<and>
   capNotReached (maxPeerAddrsToDial exampleInit) 0 (length [uncertified tcp1, uncertified tcp2]) \<and>
   snd (snd (dialJob exampleLib exampleComponents exampleInit neverAborted exampleJob)) =
     Inl (AggregateError [Err ''ConnectionRefused'' tcp1, Err ''ConnectionRefused'' tcp2]
            ''All multiaddr dials failed'') \<and>
   transportDials (fst (snd (dialJob exampleLib exampleComponents exampleInit neverAborted
     exampleJob))) = [tcp1, tcp2] \<and>
   callerObserves None (fst (snd (dialJob exampleLib exampleComponents exampleInit neverAborted
     exampleJob))) =
     [Inl (AggregateError [Err ''ConnectionRefused'' tcp1, Err ''ConnectionRefused'' tcp2]
             ''All multiaddr dials failed'')]"
proof -
  have calc: "calculateMultiaddrs exampleLib exampleComponents exampleInit (job_peerId exampleJob)
      (job_multiaddrs exampleJob) = Inr [uncertified tcp1, uncertified tcp2]"
    by (simp add: exampleJob_def example_calc)
  have fail: "allAttemptsFail exampleComponents (createDialAbortController neverAborted) 0
      [uncertified tcp1, uncertified tcp2]
      [Err ''ConnectionRefused'' tcp1, Err ''ConnectionRefused'' tcp2]"
    by (simp add: exampleComponents_def createDialAbortController_def neverAborted_def
        uncertified_def)
  have cap: "capNotReached (maxPeerAddrsToDial exampleInit) 0
      (length [uncertified tcp1, uncertified tcp2])"
    by (simp add: exampleInit_def capNotReached_def strictEquals_def)
  show ?thesis
    using dialJob_all_dials_failed [of exampleLib exampleComponents exampleInit exampleJob
        "[uncertified tcp1, uncertified tcp2]" neverAborted
        "[Err ''ConnectionRefused'' tcp1, Err ''ConnectionRefused'' tcp2]" None]
      calc fail cap
    by (simp add: uncertified_def)
qed

subsection \<open>Deduplication\<close>

lemma firstOccurrences_snoc:
  "firstOccurrences key (xs @ [x]) =
     firstOccurrences key xs @ (if key x \<in> key ` set xs then [] else [x])"
proof -
  have "map (\<lambda>i. (xs @ [x]) ! i)
          (filter (\<lambda>i. key ((xs @ [x]) ! i) \<notin> key ` set (take i (xs @ [x]))) [0..<length xs]) =
        map (\<lambda>i. xs ! i) (filter (\<lambda>i. key (xs ! i) \<notin> key ` set (take i xs)) [0..<length xs])"
    by (intro map_cong filter_cong) (auto simp: nth_append)
  then show ?thesis
    by (simp add: firstOccurrences_def)
qed

lemma firstOccurrences_keys: "key ` set (firstOccurrences key xs) = key ` set xs"
proof (induction xs rule: rev_induct)
  case Nil
  then show ?case by (simp add: firstOccurrences_def)
next
  case (snoc x xs)
  then show ?case
    by (auto simp: firstOccurrences_snoc image_Un)
qed

lemma firstOccurrences_distinct: "distinct (map key (firstOccurrences key xs))"
proof (induction xs rule: rev_induct)
  case Nil
  then show ?case by (simp add: firstOccurrences_def)
next
  case (snoc x xs)
  then show ?case
    using firstOccurrences_keys [of key xs]
    by (auto simp: firstOccurrences_snoc)
qed

lemma Map_set_fresh: "k \<notin> fst ` set m \<Longrightarrow> Map_set m k v = m @ [(k, v)]"
  by (induction m) auto

lemma Map_set_present:
  "distinct (map fst m) \<Longrightarrow> k \<in> fst ` set m \<Longrightarrow>
   Map_set m k v = map (\<lambda>e. if fst e = k then (k, v) else e) m"
proof (induction m)
  case Nil
  then show ?case by simp
next
  case (Cons e m)
  show ?case
  proof (cases "fst e = k")
    case True
    with Cons.prems have "\<forall>e' \<in> set m. fst e' \<noteq> k" by (force simp: image_iff)
    then have "map (\<lambda>e. if fst e = k then (k, v) else e) m = m"
      by (induction m) auto
    with True show ?thesis by simp
  next
    case False
    with Cons show ?thesis by auto
  qed
qed

lemma anyCertified_snoc:
  "anyCertified lib (xs @ [x]) k =
     (anyCertified lib xs k \<or> (stringForm lib x = k \<and> isCertified x))"
  by (auto simp: anyCertified_def stringForm_def list_ex_iff)

lemma anyCertified_absent:
  "k \<notin> stringForm lib ` set xs \<Longrightarrow> \<not> anyCertified lib xs k"
  by (auto simp: anyCertified_def stringForm_def list_ex_iff)

text \<open>
  The loop invariant: after the records \<open>xs\<close>, the map holds the first occurrences
  of \<open>xs\<close> in order, each certified when some record of \<open>xs\<close> with its string form is.
\<close>

lemma dedupe_loop:
  "foldl (dedupeStep lib) [] xs =
     map (\<lambda>a. (stringForm lib a, a\<lparr>isCertified := anyCertified lib xs (stringForm lib a)\<rparr>))
       (firstOccurrences (stringForm lib) xs)"
proof (induction xs rule: rev_induct)
  case Nil
  then show ?case by (simp add: firstOccurrences_def)
next
  case (snoc x xs)
  let ?key = "stringForm lib"
  let ?fo = "firstOccurrences ?key xs"
  let ?entry = "\<lambda>ys a. (?key a, a\<lparr>isCertified := anyCertified lib ys (?key a)\<rparr>)"
  let ?m = "map (?entry xs) ?fo"
  have keys: "fst ` set ?m = ?key ` set xs"
    using firstOccurrences_keys [of ?key xs] by (simp add: image_image)
  have dist: "distinct (map fst ?m)"
    using firstOccurrences_distinct [of ?key xs] by (simp add: comp_def)
  have step: "foldl (dedupeStep lib) [] (xs @ [x]) = dedupeStep lib ?m x"
    using snoc.IH by simp
  show ?case
  proof (cases "?key x \<in> ?key ` set xs")
    case False
    then have none: "Map_get ?m (?key x) = None"
      using keys by (simp add: Map_get_def map_of_eq_None_iff)
    have "dedupeStep lib ?m x = ?m @ [(?key x, x)]"
      using none False keys
      by (simp add: dedupeStep_def Map_set_fresh stringForm_def [symmetric] del: map_map)
    moreover have "map (?entry (xs @ [x])) ?fo = ?m"
    proof (rule map_cong [OF refl])
      fix a assume "a \<in> set ?fo"
      then have "?key a \<in> ?key ` set xs"
        using firstOccurrences_keys [of ?key xs] by blast
      with False have "?key x \<noteq> ?key a" by auto
      then show "?entry (xs @ [x]) a = ?entry xs a"
        by (simp add: anyCertified_snoc)
    qed
    moreover have "?entry (xs @ [x]) x = (?key x, x)"
      using anyCertified_absent [OF False] by (simp add: anyCertified_snoc)
    ultimately show ?thesis
      using False step by (simp add: firstOccurrences_snoc)
  next
    case True
    then obtain a0 where a0: "a0 \<in> set ?fo" "?key a0 = ?key x"
      using firstOccurrences_keys [of ?key xs] by (metis imageE)
    have some: "Map_get ?m (?key x) = Some (snd (?entry xs a0))"
      unfolding Map_get_def using dist a0
      by (intro map_of_is_SomeI) (auto simp: image_iff intro!: bexI [of _ a0])
    have present: "?key x \<in> fst ` set ?m" using keys True by simp
    have "dedupeStep lib ?m x =
            map (\<lambda>e. if fst e = ?key x
                      then (?key x, a0\<lparr>isCertified := anyCertified lib xs (?key x) \<or> isCertified x\<rparr>)
                      else e) ?m"
      using some a0(2)
      by (simp add: dedupeStep_def Let_def Map_set_present [OF dist present]
            stringForm_def [symmetric] del: map_map)
    also have "\<dots> = map (?entry (xs @ [x])) ?fo"
      unfolding map_map
    proof (rule map_cong [OF refl])
      fix a assume a: "a \<in> set ?fo"
      show "((\<lambda>e. if fst e = ?key x
                  then (?key x, a0\<lparr>isCertified := anyCertified lib xs (?key x) \<or> isCertified x\<rparr>)
                  else e) \<circ> ?entry xs) a = ?entry (xs @ [x]) a"
      proof (cases "?key a = ?key x")
        case True
        with a a0 have "a = a0"
          using firstOccurrences_distinct [of ?key xs]
          by (metis distinct_map inj_onD)
        with True show ?thesis by (auto simp: anyCertified_snoc)
      next
        case False
        then show ?thesis by (auto simp: anyCertified_snoc)
      qed
    qed
    finally show ?thesis
      using True step by (simp add: firstOccurrences_snoc)
  qed
qed

lemma stringForm_certified [simp]: "stringForm lib (addr\<lparr>isCertified := c\<rparr>) = stringForm lib addr"
  by (simp add: stringForm_def)

text \<open>
  C8. The deduplication of \<^verbatim>\<open>calculateMultiaddrs\<close> keys on the exact string form of
  the multiaddr: it returns the first record of every string form, in the original
  order, with \<^verbatim>\<open>isCertified\<close> set to the disjunction of the flags of all records of
  that string form; the string forms of the result are distinct and are those of
  the input.
\<close>

theorem dedupeAddrs_first_occurrence_sticky:
  "dedupeAddrs lib filteredAddrs =
     map (\<lambda>addr. addr\<lparr>isCertified := anyCertified lib filteredAddrs (stringForm lib addr)\<rparr>)
       (firstOccurrences (stringForm lib) filteredAddrs) \<and>
   distinct (map (stringForm lib) (dedupeAddrs lib filteredAddrs)) \<and>
   set (map (stringForm lib) (dedupeAddrs lib filteredAddrs)) =
     set (map (stringForm lib) filteredAddrs)"
proof -
  have eq: "dedupeAddrs lib filteredAddrs =
     map (\<lambda>addr. addr\<lparr>isCertified := anyCertified lib filteredAddrs (stringForm lib addr)\<rparr>)
       (firstOccurrences (stringForm lib) filteredAddrs)"
    by (simp add: dedupeAddrs_def Map_values_def dedupe_loop comp_def)
  have forms: "map (stringForm lib) (dedupeAddrs lib filteredAddrs) =
      map (stringForm lib) (firstOccurrences (stringForm lib) filteredAddrs)"
    by (simp add: eq comp_def)
  have dist: "distinct (map (stringForm lib) (dedupeAddrs lib filteredAddrs))"
    unfolding forms by (rule firstOccurrences_distinct)
  have keys: "set (map (stringForm lib) (dedupeAddrs lib filteredAddrs)) =
      set (map (stringForm lib) filteredAddrs)"
    unfolding forms by (simp add: firstOccurrences_keys)
  show ?thesis
    by (intro conjI) (rule eq dist keys)+
qed

theorem dedupeAddrs_first_occurrence_sticky_witness:
  "dedupeAddrs exampleLib
     [\<lparr>multiaddr = tcp1, isCertified = False\<rparr>, \<lparr>multiaddr = tcp2, isCertified = False\<rparr>,
      \<lparr>multiaddr = tcp1, isCertified = True\<rparr>] =
     [\<lparr>multiaddr = tcp1, isCertified = True\<rparr>, \<lparr>multiaddr = tcp2, isCertified = False\<rparr>]"
  using dedupeAddrs_first_occurrence_sticky [of exampleLib
      "[\<lparr>multiaddr = tcp1, isCertified = False\<rparr>, \<lparr>multiaddr = tcp2, isCertified = False\<rparr>,
        \<lparr>multiaddr = tcp1, isCertified = True\<rparr>]"]
  by (simp add: firstOccurrences_def anyCertified_def stringForm_def exampleLib_def upt_rec)

subsection \<open>isDialable\<close>

lemma find_list_ex: "(\<exists>y. find P xs = Some y) = list_ex P xs"
  by (induction xs) auto

lemma exampleLib_toString: "toString exampleLib = (\<lambda>ma. ma)"
  by (simp add: exampleLib_def)

lemma exampleLib_Circuit_matches: "Circuit_matches exampleLib ma = (ma = relayed)"
  by (simp add: exampleLib_def)

text \<open>
  C9. \<^verbatim>\<open>isDialable\<close> never rejects: it always fulfils with a boolean. The boolean is
  false when \<^verbatim>\<open>calculateMultiaddrs\<close>, called without a peer id on the set of the
  string forms of the given multiaddrs, throws, whatever the error; when the
  calculation succeeds it is true, except that with \<^verbatim>\<open>runOnLimitedConnection = false\<close>
  it is true exactly when some calculated address is not a circuit relay address.
\<close>

theorem isDialable_never_rejects:
  "isDialable lib components init ma options =
     Inr (case calculateMultiaddrs lib components init None
                 (new_Set (map (toString lib) (case ma of One m \<Rightarrow> [m] | Many ms \<Rightarrow> ms))) of
            Inl err \<Rightarrow> False
          | Inr addresses \<Rightarrow>
              (if runOnLimitedConnection options = Some False
               then list_ex (\<lambda>addr. \<not> Circuit_matches lib (multiaddr addr)) addresses
               else True))"
  by (simp add: isDialable_def andThen_def find_list_ex Let_def split: sum.splits)

lemma example_calc_one:
  "calculateMultiaddrs exampleLib exampleComponents exampleInit None [s] = Inr [uncertified s]"
  by (simp add: calc_defs Let_def exampleLib_def exampleComponents_def exampleInit_def)

lemma example_calc_noTransports:
  "calculateMultiaddrs exampleLib noTransports exampleInit None [s] =
     Inl (NoValidAddressesError ''The dial request has no valid addresses'')"
  by (simp add: calc_defs Let_def exampleLib_def exampleComponents_def exampleInit_def
      noTransports_def)

theorem isDialable_never_rejects_witness:
  "isDialable exampleLib exampleComponents exampleInit (One relayed) unlimitedOnly =
     Inr False \<and>
   isDialable exampleLib exampleComponents exampleInit (Many [tcp1, tcp1]) unlimitedOnly =
     Inr True \<and>
   isDialable exampleLib noTransports exampleInit (One tcp1) unlimitedOnly = Inr False"
  unfolding isDialable_never_rejects
  by (simp add: new_Set_def Set_add_def exampleLib_toString exampleLib_Circuit_matches
      example_calc_one example_calc_noTransports unlimitedOnly_def uncertified_def)

subsection \<open>Address discovery\<close>

text \<open>The steps after discovery read neither the peer store nor the peer routing.\<close>

lemma gateAddrs_other_peerStore:
  "gateAddrs (components\<lparr>peerStore_get := f\<rparr>) addrs = gateAddrs components addrs"
  by (induction addrs) (simp_all split: option.splits cong: if_cong)

lemma gateAddrs_other_peerRouting:
  "gateAddrs (components\<lparr>peerRouting_findPeer := f\<rparr>) addrs = gateAddrs components addrs"
  by (induction addrs) (simp_all split: option.splits cong: if_cong)

lemma finishAddrs_other_peerStore:
  "finishAddrs lib (components\<lparr>peerStore_get := f\<rparr>) init peerId addrs =
   finishAddrs lib components init peerId addrs"
proof -
  have "keepAddr lib (components\<lparr>peerStore_get := f\<rparr>) peerId = keepAddr lib components peerId"
    by (simp add: keepAddr_def fun_eq_iff)
  then show ?thesis
    by (simp add: finishAddrs_def gateAddrs_other_peerStore cong: if_cong)
qed

lemma finishAddrs_other_peerRouting:
  "finishAddrs lib (components\<lparr>peerRouting_findPeer := f\<rparr>) init peerId addrs =
   finishAddrs lib components init peerId addrs"
proof -
  have "keepAddr lib (components\<lparr>peerRouting_findPeer := f\<rparr>) peerId =
        keepAddr lib components peerId"
    by (simp add: keepAddr_def fun_eq_iff)
  then show ?thesis
    by (simp add: finishAddrs_def gateAddrs_other_peerRouting cong: if_cong)
qed

lemma finishAddrs_no_addrs:
  "finishAddrs lib components init peerId [] =
     Inl (NoValidAddressesError ''The dial request has no valid addresses'')"
  by (cases peerId)
    (simp_all add: finishAddrs_def resolveAddrs_def appendPeerIds_def dedupeAddrs_def
      Map_values_def andThen_def)

lemma calculateMultiaddrs_discovery:
  "checkPeer components p = Inr () \<Longrightarrow>
   calculateMultiaddrs lib components init (Some p) [] =
     andThen (loadFromPeerStore components p [])
       (\<lambda>loaded. finishAddrs lib components init (Some p) (lookupPeerRouting components p loaded))"
  by (simp add: calculateMultiaddrs_def seedAddrs_def discoverAddrs_def andThen_def
      split: sum.splits)

lemma checkPeer_other_peerStore:
  "checkPeer (components\<lparr>peerStore_get := f\<rparr>) p = checkPeer components p"
  by (simp add: checkPeer_def)

lemma checkPeer_other_peerRouting:
  "checkPeer (components\<lparr>peerRouting_findPeer := f\<rparr>) p = checkPeer components p"
  by (simp add: checkPeer_def)

text \<open>
  C1, amended. A dial of a peer id with an empty seed that gets to address
  discovery (the peer is not the local peer and the gater lets it pass):
  an error of \<^verbatim>\<open>peerStore.get\<close> whose name is not \<^verbatim>\<open>NotFoundError\<close> is the outcome of the
  calculation; a \<^verbatim>\<open>NotFoundError\<close> is swallowed, the calculation ends as it would had
  the store returned a peer without addresses; an error of \<^verbatim>\<open>peerRouting.findPeer\<close>
  is swallowed whatever its name, the calculation ends as it would had the routing
  returned no multiaddr; and when the store knows no address and the routing
  throws, the outcome is the \<^verbatim>\<open>NoValidAddressesError\<close> of the empty address list.
\<close>

theorem calculateMultiaddrs_discovery_errors:
  assumes reached: "checkPeer components p = Inr ()"
  shows
    "(peerStore_get components p = Inl err \<and> err_name err \<noteq> ''NotFoundError'' \<longrightarrow>
        calculateMultiaddrs lib components init (Some p) [] = Inl err) \<and>
     (peerStore_get components p = Inl err \<and> err_name err = ''NotFoundError'' \<longrightarrow>
        calculateMultiaddrs lib components init (Some p) [] =
        calculateMultiaddrs lib (components\<lparr>peerStore_get := (\<lambda>q. Inr [])\<rparr>) init (Some p) []) \<and>
     (peerRouting_findPeer components p = Inl err' \<longrightarrow>
        calculateMultiaddrs lib components init (Some p) [] =
        calculateMultiaddrs lib (components\<lparr>peerRouting_findPeer := (\<lambda>q. Inr [])\<rparr>) init (Some p) []) \<and>
     (peerStore_get components p = Inl err \<and> err_name err = ''NotFoundError'' \<and>
      peerRouting_findPeer components p = Inl err' \<longrightarrow>
        calculateMultiaddrs lib components init (Some p) [] =
        Inl (NoValidAddressesError ''The dial request has no valid addresses''))"
proof (intro conjI impI)
  assume "peerStore_get components p = Inl err \<and> err_name err \<noteq> ''NotFoundError''"
  then show "calculateMultiaddrs lib components init (Some p) [] = Inl err"
    by (simp add: calculateMultiaddrs_discovery [OF reached] loadFromPeerStore_def andThen_def)
next
  let ?c = "components\<lparr>peerStore_get := (\<lambda>q. Inr [])\<rparr>"
  assume notFound: "peerStore_get components p = Inl err \<and> err_name err = ''NotFoundError''"
  have reached': "checkPeer ?c p = Inr ()"
    using reached by (simp add: checkPeer_other_peerStore)
  have "lookupPeerRouting ?c p [] = lookupPeerRouting components p []"
    by (simp add: lookupPeerRouting_def)
  then show "calculateMultiaddrs lib components init (Some p) [] =
             calculateMultiaddrs lib ?c init (Some p) []"
    using notFound
    by (simp add: calculateMultiaddrs_discovery [OF reached]
        calculateMultiaddrs_discovery [OF reached'] loadFromPeerStore_def andThen_def
        finishAddrs_other_peerStore)
next
  let ?c = "components\<lparr>peerRouting_findPeer := (\<lambda>q. Inr [])\<rparr>"
  assume raised: "peerRouting_findPeer components p = Inl err'"
  have reached': "checkPeer ?c p = Inr ()"
    using reached by (simp add: checkPeer_other_peerRouting)
  have load: "loadFromPeerStore ?c p [] = loadFromPeerStore components p []"
    by (simp add: loadFromPeerStore_def)
  have look: "lookupPeerRouting ?c p loaded = lookupPeerRouting components p loaded" for loaded
    using raised by (simp add: lookupPeerRouting_def)
  show "calculateMultiaddrs lib components init (Some p) [] =
        calculateMultiaddrs lib ?c init (Some p) []"
    by (simp add: calculateMultiaddrs_discovery [OF reached]
        calculateMultiaddrs_discovery [OF reached'] load look
        finishAddrs_other_peerRouting)
next
  assume "peerStore_get components p = Inl err \<and> err_name err = ''NotFoundError'' \<and>
          peerRouting_findPeer components p = Inl err'"
  then show "calculateMultiaddrs lib components init (Some p) [] =
             Inl (NoValidAddressesError ''The dial request has no valid addresses'')"
    by (simp add: calculateMultiaddrs_discovery [OF reached] loadFromPeerStore_def
        lookupPeerRouting_def andThen_def finishAddrs_no_addrs)
qed

text \<open>
  C1, as stated, fails for the peer routing: an error of \<^verbatim>\<open>findPeer\<close> whose name is
  not \<^verbatim>\<open>NoPeerRoutersError\<close> does not reach the caller. The \<^verbatim>\<open>catch\<close> block of lines
  399-403 logs it and throws nothing.
\<close>

theorem calculateMultiaddrs_routing_error_counterexample:
  "checkPeer exampleComponents ''QmPeer'' = Inr () \<and>
   peerStore_get exampleComponents ''QmPeer'' = Inl (Err ''NotFoundError'' ''no such peer'') \<and>
   peerRouting_findPeer exampleComponents ''QmPeer'' = Inl (Err ''QueryError'' ''routing failed'') \<and>
   err_name (Err ''QueryError'' ''routing failed'') \<noteq> ''NoPeerRoutersError'' \<and>
   calculateMultiaddrs exampleLib exampleComponents exampleInit (Some ''QmPeer'') [] \<noteq>
     Inl (Err ''QueryError'' ''routing failed'')"
  by (simp add: calc_defs checkPeer_def loadFromPeerStore_def lookupPeerRouting_def Let_def
      exampleLib_def exampleComponents_def exampleInit_def NoValidAddressesError_def)

theorem calculateMultiaddrs_discovery_errors_witness:
  "checkPeer exampleComponents ''QmPeer'' = Inr () \<and>
   peerStore_get exampleComponents ''QmPeer'' = Inl (Err ''NotFoundError'' ''no such peer'') \<and>
   peerRouting_findPeer exampleComponents ''QmPeer'' = Inl (Err ''QueryError'' ''routing failed'') \<and>
   calculateMultiaddrs exampleLib exampleComponents exampleInit (Some ''QmPeer'') [] =
     Inl (NoValidAddressesError ''The dial request has no valid addresses'') \<and>
   checkPeer storeUnavailable ''QmPeer'' = Inr () \<and>
   peerStore_get storeUnavailable ''QmPeer'' = Inl (Err ''DatabaseError'' ''store is closed'') \<and>
   calculateMultiaddrs exampleLib storeUnavailable exampleInit (Some ''QmPeer'') [] =
     Inl (Err ''DatabaseError'' ''store is closed'')"
proof -
  have r1: "checkPeer exampleComponents ''QmPeer'' = Inr ()"
    by (simp add: checkPeer_def exampleComponents_def andThen_def)
  have r2: "checkPeer storeUnavailable ''QmPeer'' = Inr ()"
    by (simp add: checkPeer_def storeUnavailable_def exampleComponents_def andThen_def)
  have s1: "peerStore_get exampleComponents ''QmPeer'' = Inl (Err ''NotFoundError'' ''no such peer'')"
    and f1: "peerRouting_findPeer exampleComponents ''QmPeer'' = Inl (Err ''QueryError'' ''routing failed'')"
    by (simp_all add: exampleComponents_def)
  have s2: "peerStore_get storeUnavailable ''QmPeer'' = Inl (Err ''DatabaseError'' ''store is closed'')"
    by (simp add: storeUnavailable_def)
  have n1: "err_name (Err ''NotFoundError'' ''no such peer'') = ''NotFoundError''"
    and n2: "err_name (Err ''DatabaseError'' ''store is closed'') \<noteq> ''NotFoundError''"
    by simp_all
  have swallowed: "calculateMultiaddrs exampleLib exampleComponents exampleInit (Some ''QmPeer'') [] =
      Inl (NoValidAddressesError ''The dial request has no valid addresses'')"
    using calculateMultiaddrs_discovery_errors [OF r1, of "Err ''NotFoundError'' ''no such peer''"
        exampleLib exampleInit "Err ''QueryError'' ''routing failed''"] s1 f1 n1
    by blast
  have propagated: "calculateMultiaddrs exampleLib storeUnavailable exampleInit (Some ''QmPeer'') [] =
      Inl (Err ''DatabaseError'' ''store is closed'')"
    using calculateMultiaddrs_discovery_errors [OF r2, of "Err ''DatabaseError'' ''store is closed''"
        exampleLib exampleInit "Err ''QueryError'' ''routing failed''"] s2 n2
    by blast
  show ?thesis
    by (intro conjI) (rule r1 s1 f1 swallowed r2 s2 propagated)+
qed

subsection \<open>The submission path of dial\<close>

lemma jobMatches_overlaps: "jobMatches lib target job = overlaps lib target job"
  by (cases "target_peerId target")
    (auto simp: jobMatches_def overlaps_def list_ex_iff)

lemma set_foldl_Set_add: "set (foldl Set_add s xs) = set s \<union> set xs"
  by (induction xs arbitrary: s) (auto simp: Set_add_def)

lemma findIndex_Some:
  "findIndex P xs = Some i \<Longrightarrow> i < length xs \<and> P (xs ! i) \<and> (\<forall>k<i. \<not> P (xs ! k))"
proof (induction xs arbitrary: i)
  case Nil
  then show ?case by simp
next
  case (Cons x xs)
  show ?case
  proof (cases "P x")
    case True
    with Cons.prems show ?thesis by simp
  next
    case False
    with Cons.prems obtain j where j: "findIndex P xs = Some j" "i = Suc j"
      by (auto split: option.splits)
    with Cons.IH [OF j(1)] False show ?thesis
      by (auto simp: less_Suc_eq_0_disj)
  qed
qed

lemma findIndex_None: "(findIndex P xs = None) = (\<forall>x \<in> set xs. \<not> P x)"
  by (induction xs) (auto split: option.splits)

lemma find_Some_member: "find P xs = Some x \<Longrightarrow> x \<in> set xs \<and> P x"
  by (induction xs) (auto split: if_splits)

lemma length_queue_add: "length (queue_add job queue) = Suc (length queue)"
  by (induction queue) auto

lemma dial_not_returnsExisting:
  "\<not> returnsExisting connections target options \<Longrightarrow>
   dial lib init connections queue target options = joinOrAdd lib init queue target options"
  by (auto simp: dial_def returnsExisting_def split: option.splits)

lemma dial_returnsExisting:
  "existingConnection connections target options = Some conn \<Longrightarrow> status conn = Open \<Longrightarrow>
   dial lib init connections queue target options =
     (AlreadyConnected conn, [''dial-queue:already-connected''], queue)"
  by (simp add: dial_def)

lemma existingConnection_matches:
  "existingConnection connections target options = Some conn \<Longrightarrow>
   conn \<in> set (concat (map snd connections)) \<and> connectionMatches target conn \<and>
   force options \<noteq> Some True"
  unfolding existingConnection_def
  by (drule find_Some_member) (auto simp: connectionMatches_def find_Some_iff in_set_conv_nth split: if_splits)

text \<open>
  C5 says that an open connection to the target in the connections map is returned
  and nothing is enqueued. The code checks the status of the first matching
  connection only: here the map holds, for the peer, a closing connection followed
  by an open one, \<^verbatim>\<open>force\<close> is not set, and \<^verbatim>\<open>dial\<close> adds a new job to the queue
  instead of returning the open connection.
\<close>

theorem dial_open_connection_behind_closing_one:
  "dial exampleLib exampleInit [(''QmPeer'', [closingConnection, openConnection])] [] peerTarget
     defaultOptions =
   (AddedJob peerJob, [''dial-queue:add-to-dial-queue''], [peerJob])"
  by (simp add: dial_def existingConnection_def joinOrAdd_def closingConnection_def
      openConnection_def peerTarget_def defaultOptions_def peerJob_def exampleInit_def
      queue_size_def new_Set_def DEFAULT_DIAL_PRIORITY_def Let_def greaterOrEqual_def)

lemma joinOrAdd_joins:
  assumes "list_ex (overlaps lib target) queue"
  shows "\<exists>i<length queue. overlaps lib target (queue ! i) \<and>
           (\<forall>k<i. \<not> overlaps lib target (queue ! k)) \<and>
           joinOrAdd lib init queue target options =
             (JoinedJob i, [''dial-queue:already-in-dial-queue''],
              queue[i := joinJob lib target (queue ! i)])"
proof -
  have "findIndex (jobMatches lib target) queue \<noteq> None"
    using assms by (simp add: findIndex_None list_ex_iff jobMatches_overlaps)
  then obtain i where i: "findIndex (jobMatches lib target) queue = Some i"
    by blast
  from findIndex_Some [OF i] have "i < length queue" "overlaps lib target (queue ! i)"
    "\<forall>k<i. \<not> overlaps lib target (queue ! k)"
    by (simp_all add: jobMatches_overlaps)
  moreover have "joinOrAdd lib init queue target options =
      (JoinedJob i, [''dial-queue:already-in-dial-queue''],
       queue[i := joinJob lib target (queue ! i)])"
    by (simp add: joinOrAdd_def i joinJob_def)
  ultimately show ?thesis by blast
qed

text \<open>
  C6, amended. When the existing-connection check does not return (\<^verbatim>\<open>force\<close> is set,
  no connection matches, or the first matching connection is not open) and some
  queued job matches the target, the call joins the first matching job of the queue:
  it creates no new job (the queue keeps its length, the only change is to that
  job), the string form of every target multiaddr is added to that job's set, and
  the caller waits for that job's result.
\<close>

theorem dial_joins_overlapping_job:
  assumes "\<not> returnsExisting connections target options"
    and "list_ex (overlaps lib target) queue"
  shows "\<exists>i<length queue. overlaps lib target (queue ! i) \<and>
           (\<forall>k<i. \<not> overlaps lib target (queue ! k)) \<and>
           dial lib init connections queue target options =
             (JoinedJob i, [''dial-queue:already-in-dial-queue''],
              queue[i := joinJob lib target (queue ! i)]) \<and>
           length (snd (snd (dial lib init connections queue target options))) = length queue \<and>
           set (job_multiaddrs (joinJob lib target (queue ! i))) =
             set (job_multiaddrs (queue ! i)) \<union>
             set (map (toString lib) (target_multiaddrs target))"
proof -
  from joinOrAdd_joins [OF assms(2), of init options]
  obtain i where i: "i < length queue" "overlaps lib target (queue ! i)"
    "\<forall>k<i. \<not> overlaps lib target (queue ! k)"
    "joinOrAdd lib init queue target options =
       (JoinedJob i, [''dial-queue:already-in-dial-queue''],
        queue[i := joinJob lib target (queue ! i)])"
    by blast
  have "set (job_multiaddrs (joinJob lib target (queue ! i))) =
          set (job_multiaddrs (queue ! i)) \<union> set (map (toString lib) (target_multiaddrs target))"
    by (simp add: joinJob_def set_foldl_Set_add)
  with i show ?thesis
    by (intro exI [of _ i]) (simp add: dial_not_returnsExisting [OF assms(1)])
qed

theorem dial_joins_overlapping_job_witness:
  "\<not> returnsExisting [] addrTarget defaultOptions \<and>
   list_ex (overlaps exampleLib addrTarget) [peerJob] \<and>
   dial exampleLib exampleInit [] [peerJob] addrTarget defaultOptions =
     (JoinedJob 0, [''dial-queue:already-in-dial-queue''],
      [peerJob\<lparr>job_multiaddrs := [tcp1Peer]\<rparr>])"
proof -
  have noConn: "\<not> returnsExisting [] addrTarget defaultOptions"
    by (simp add: returnsExisting_def existingConnection_def)
  have queued: "list_ex (overlaps exampleLib addrTarget) [peerJob]"
    by (simp add: overlaps_def addrTarget_def peerJob_def)
  have "joinJob exampleLib addrTarget peerJob = peerJob\<lparr>job_multiaddrs := [tcp1Peer]\<rparr>"
    by (simp add: joinJob_def addrTarget_def peerJob_def exampleLib_def Set_add_def)
  with dial_joins_overlapping_job [OF noConn queued, of exampleInit] noConn queued
  show ?thesis by auto
qed

text \<open>
  C6, as stated, fails when the existing-connection check returns first. The queued
  job has the peer id of the target, yet the call returns the open connection to
  that peer at once: it joins no job and the target's address string is not added
  to the job's set.
\<close>

theorem dial_overlapping_job_counterexample:
  "job_peerId peerJob = target_peerId addrTarget \<and>
   target_peerId addrTarget = Some ''QmPeer'' \<and>
   job_multiaddrs peerJob = [] \<and>
   map (toString exampleLib) (target_multiaddrs addrTarget) = [tcp1Peer] \<and>
   dial exampleLib exampleInit [(''QmPeer'', [openConnection])] [peerJob] addrTarget
     defaultOptions =
     (AlreadyConnected openConnection, [''dial-queue:already-connected''], [peerJob])"
  by (simp add: dial_def existingConnection_def openConnection_def addrTarget_def
      defaultOptions_def peerJob_def exampleLib_def)

lemma greaterOrEqual_int:
  "greaterOrEqual count (Finite (of_int limit)) = (limit \<le> int count)"
proof -
  have "(of_int limit :: rat) \<le> of_int (int count) \<longleftrightarrow> limit \<le> int count"
    by (rule of_int_le_iff)
  then show ?thesis by (simp add: greaterOrEqual_def)
qed

lemma dial_added:
  assumes "dial lib init connections queue target options = (AddedJob job, events, queue')"
  shows "\<not> greaterOrEqual (queue_size queue) (maxDialQueueLength init) \<and>
         queue_size queue' = Suc (queue_size queue)"
  using assms
  by (auto simp: dial_def joinOrAdd_def queue_size_def length_queue_add Let_def
      split: option.splits if_splits)

lemma dial_queue_size:
  "queue_size (snd (snd (dial lib init connections queue target options))) =
     (if fst (dial lib init connections queue target options) \<in> range AddedJob
      then Suc (queue_size queue) else queue_size queue)"
  by (auto simp: dial_def joinOrAdd_def queue_size_def length_queue_add Let_def
      split: option.splits if_splits)

text \<open>
  C7, amended. When no open connection matches the target, no queued job matches it
  and \<^verbatim>\<open>queue.size >= maxDialQueueLength\<close>, \<^verbatim>\<open>dial\<close> throws
  \<^verbatim>\<open>DialError("Dial queue is full")\<close> and leaves the queue as it was, whatever number
  \<^verbatim>\<open>maxDialQueueLength\<close> is. A call that does add a job found
  \<^verbatim>\<open>queue.size >= maxDialQueueLength\<close> false and makes the queue one longer. Hence,
  when \<^verbatim>\<open>maxDialQueueLength\<close> is an integer, a call that adds a job leaves a queue no
  longer than \<^verbatim>\<open>maxDialQueueLength\<close>, and no call takes the queue beyond that length.
\<close>

theorem dial_queue_full:
  "((\<forall>conn \<in> set (concat (map snd connections)).
       connectionMatches target conn \<longrightarrow> status conn \<noteq> Open) \<and>
    (\<forall>job \<in> set queue. \<not> overlaps lib target job) \<and>
    greaterOrEqual (queue_size queue) (maxDialQueueLength init) \<longrightarrow>
    dial lib init connections queue target options =
      (Rejected (DialError ''Dial queue is full''), [], queue)) \<and>
   (dial lib init connections queue target options = (AddedJob job, events, queue') \<longrightarrow>
    \<not> greaterOrEqual (queue_size queue) (maxDialQueueLength init) \<and>
    queue_size queue' = Suc (queue_size queue)) \<and>
   (maxDialQueueLength init = Finite (of_int limit) \<longrightarrow>
    (dial lib init connections queue target options = (AddedJob job, events, queue') \<longrightarrow>
     int (queue_size queue') \<le> limit) \<and>
    (int (queue_size queue) \<le> limit \<longrightarrow>
     int (queue_size (snd (snd (dial lib init connections queue target options)))) \<le> limit))"
proof (intro conjI impI)
  assume h: "(\<forall>conn \<in> set (concat (map snd connections)).
                connectionMatches target conn \<longrightarrow> status conn \<noteq> Open) \<and>
             (\<forall>job \<in> set queue. \<not> overlaps lib target job) \<and>
             greaterOrEqual (queue_size queue) (maxDialQueueLength init)"
  have "\<not> returnsExisting connections target options"
  proof (cases "existingConnection connections target options")
    case None
    then show ?thesis by (simp add: returnsExisting_def)
  next
    case (Some conn)
    from existingConnection_matches [OF Some] h have "status conn \<noteq> Open" by blast
    with Some show ?thesis by (simp add: returnsExisting_def)
  qed
  moreover have "findIndex (jobMatches lib target) queue = None"
    using h by (simp add: findIndex_None jobMatches_overlaps)
  ultimately show "dial lib init connections queue target options =
      (Rejected (DialError ''Dial queue is full''), [], queue)"
    using h by (simp add: dial_not_returnsExisting joinOrAdd_def)
next
  assume "dial lib init connections queue target options = (AddedJob job, events, queue')"
  then show "\<not> greaterOrEqual (queue_size queue) (maxDialQueueLength init)"
    by (simp add: dial_added)
next
  assume "dial lib init connections queue target options = (AddedJob job, events, queue')"
  then show "queue_size queue' = Suc (queue_size queue)"
    by (simp add: dial_added)
next
  assume limit: "maxDialQueueLength init = Finite (of_int limit)"
    and added: "dial lib init connections queue target options = (AddedJob job, events, queue')"
  from dial_added [OF added] limit show "int (queue_size queue') \<le> limit"
    by (simp add: greaterOrEqual_int)
next
  assume limit: "maxDialQueueLength init = Finite (of_int limit)"
    and below: "int (queue_size queue) \<le> limit"
  show "int (queue_size (snd (snd (dial lib init connections queue target options)))) \<le> limit"
  proof (cases "fst (dial lib init connections queue target options) \<in> range AddedJob")
    case False
    with below show ?thesis by (simp add: dial_queue_size)
  next
    case True
    then obtain job' where "fst (dial lib init connections queue target options) = AddedJob job'"
      by blast
    then have "dial lib init connections queue target options =
        (AddedJob job', fst (snd (dial lib init connections queue target options)),
         snd (snd (dial lib init connections queue target options)))"
      by (simp add: prod_eq_iff)
    from dial_added [OF this] limit show ?thesis
      by (simp add: greaterOrEqual_int)
  qed
qed

theorem dial_queue_full_witness:
  "list_all (\<lambda>conn. \<not> connectionMatches peerTarget conn)
     (concat (map snd [(''QmOther'', [establishedConnection\<lparr>remotePeer := ''QmOther''\<rparr>])])) \<and>
   list_all (\<lambda>job. \<not> overlaps exampleLib peerTarget job) [otherJob] \<and>
   maxDialQueueLength queueOfOne = Finite (of_int 1) \<and>
   greaterOrEqual (queue_size [otherJob]) (maxDialQueueLength queueOfOne) \<and>
   dial exampleLib queueOfOne [(''QmOther'', [establishedConnection\<lparr>remotePeer := ''QmOther''\<rparr>])]
     [otherJob] peerTarget defaultOptions =
     (Rejected (DialError ''Dial queue is full''), [], [otherJob]) \<and>
   dial exampleLib queueOfOne [] [] peerTarget defaultOptions =
     (AddedJob peerJob, [''dial-queue:add-to-dial-queue''], [peerJob]) \<and>
   int (queue_size [peerJob]) \<le> 1"
proof -
  let ?conns = "[(''QmOther'', [establishedConnection\<lparr>remotePeer := ''QmOther''\<rparr>])]"
  have conns: "list_all (\<lambda>conn. \<not> connectionMatches peerTarget conn) (concat (map snd ?conns))"
    by (simp add: connectionMatches_def peerTarget_def establishedConnection_def)
  have jobs: "list_all (\<lambda>job. \<not> overlaps exampleLib peerTarget job) [otherJob]"
    by (simp add: overlaps_def peerTarget_def otherJob_def)
  have limit: "maxDialQueueLength queueOfOne = Finite (of_int 1)"
    by (simp add: queueOfOne_def)
  have full: "greaterOrEqual (queue_size [otherJob]) (maxDialQueueLength queueOfOne)"
    by (simp add: queueOfOne_def queue_size_def greaterOrEqual_def)
  have added: "dial exampleLib queueOfOne [] [] peerTarget defaultOptions =
      (AddedJob peerJob, [''dial-queue:add-to-dial-queue''], [peerJob])"
    by (simp add: dial_def existingConnection_def joinOrAdd_def peerTarget_def
        defaultOptions_def peerJob_def queueOfOne_def queue_size_def new_Set_def
        DEFAULT_DIAL_PRIORITY_def Let_def greaterOrEqual_def)
  have rejected: "dial exampleLib queueOfOne ?conns [otherJob] peerTarget defaultOptions =
      (Rejected (DialError ''Dial queue is full''), [], [otherJob])"
    using dial_queue_full [where connections = ?conns and target = peerTarget
        and queue = "[otherJob]" and lib = exampleLib and init = queueOfOne
        and options = defaultOptions] conns jobs full
    by (simp add: list_all_iff)
  have bound: "int (queue_size [peerJob]) \<le> 1"
    using dial_queue_full [where connections = "[]" and target = peerTarget
        and queue = "[]" and lib = exampleLib and init = queueOfOne
        and options = defaultOptions and job = peerJob
        and events = "[''dial-queue:add-to-dial-queue'']" and queue' = "[peerJob]"
        and limit = 1] added limit
    by simp
  show ?thesis
    by (intro conjI) (rule conns jobs limit full rejected added bound)+
qed

text \<open>
  C7, as stated, fails for a limit that is not an integer. With a limit of one half
  the check \<^verbatim>\<open>queue.size >= maxDialQueueLength\<close> is false for the empty queue, so
  the submission is accepted, and the queue then holds one job, which exceeds the
  limit.
\<close>

theorem dial_fractional_limit_counterexample:
  "maxDialQueueLength halfQueue = Finite (1 / 2) \<and>
   dial exampleLib halfQueue [] [] peerTarget defaultOptions =
     (AddedJob peerJob, [''dial-queue:add-to-dial-queue''], [peerJob]) \<and>
   \<not> (of_nat (queue_size [peerJob]) \<le> (1 / 2 :: rat))"
  by (simp add: dial_def existingConnection_def joinOrAdd_def peerTarget_def
      defaultOptions_def peerJob_def halfQueue_def queue_size_def new_Set_def
      DEFAULT_DIAL_PRIORITY_def Let_def greaterOrEqual_def)

lemma startDialJob_grown:
  "startDialJob lib components init job = Inr (grown, addrsToDial) \<Longrightarrow>
   calculateMultiaddrs lib components init (job_peerId job) (job_multiaddrs job) =
     Inr addrsToDial \<and> grown = growJob lib job addrsToDial"
  by (auto simp: startDialJob_def split: sum.splits)

lemma growJob_multiaddrs:
  "set (job_multiaddrs (growJob lib job addrsToDial)) =
     set (job_multiaddrs job) \<union> set (map (stringForm lib) addrsToDial)"
  by (simp add: growJob_def set_foldl_Set_add stringForm_def [abs_def])

text \<open>
  C10, amended. When the address calculation of a job succeeds, the first block of
  the job function leaves the job with the string form of every calculated address
  in its set; the attempt loop, which makes all the transport dials, runs after it
  and leaves the job as it is. A later call of \<^verbatim>\<open>dial\<close>, made while the job is in the
  queue, whose target has a multiaddr with one of these string forms and which the
  existing-connection check does not answer, finds that the job matches and joins
  a queued job instead of adding one: the first matching job of the queue, which is
  this job unless an earlier job matches too.
\<close>

theorem later_dial_joins_grown_job:
  assumes started: "startDialJob lib components init job = Inr (grown, addrsToDial)"
  shows
    "set (job_multiaddrs grown) =
       set (job_multiaddrs job) \<union> set (map (stringForm lib) addrsToDial) \<and>
     dialJob lib components init sources job =
       (grown,
        Progress ''dial-queue:start-dial'' # Progress ''dial-queue:calculated-addresses'' #
          fst (attemptLoop components (maxPeerAddrsToDial init)
                 (createDialAbortController sources) (job_peerId job) 0 [] addrsToDial),
        snd (attemptLoop components (maxPeerAddrsToDial init)
               (createDialAbortController sources) (job_peerId job) 0 [] addrsToDial)) \<and>
     (i < length queue \<and> queue ! i = grown \<and> ma \<in> set (target_multiaddrs target) \<and>
      toString lib ma \<in> set (map (stringForm lib) addrsToDial) \<and>
      \<not> returnsExisting connections target options \<longrightarrow>
      overlaps lib target grown \<and>
      (\<exists>k\<le>i. overlaps lib target (queue ! k) \<and>
         ((\<forall>m<i. \<not> overlaps lib target (queue ! m)) \<longrightarrow> k = i) \<and>
         dial lib init connections queue target options =
           (JoinedJob k, [''dial-queue:already-in-dial-queue''],
            queue[k := joinJob lib target (queue ! k)]) \<and>
         length (snd (snd (dial lib init connections queue target options))) = length queue))"
proof (intro conjI impI)
  from startDialJob_grown [OF started]
  have calc: "calculateMultiaddrs lib components init (job_peerId job) (job_multiaddrs job) =
                Inr addrsToDial"
    and grown: "grown = growJob lib job addrsToDial"
    by simp_all
  show strings: "set (job_multiaddrs grown) =
      set (job_multiaddrs job) \<union> set (map (stringForm lib) addrsToDial)"
    by (simp only: grown growJob_multiaddrs)
  show "dialJob lib components init sources job =
       (grown,
        Progress ''dial-queue:start-dial'' # Progress ''dial-queue:calculated-addresses'' #
          fst (attemptLoop components (maxPeerAddrsToDial init)
                 (createDialAbortController sources) (job_peerId job) 0 [] addrsToDial),
        snd (attemptLoop components (maxPeerAddrsToDial init)
               (createDialAbortController sources) (job_peerId job) 0 [] addrsToDial))"
    by (simp only: dialJob_calculated [OF calc] grown)
  assume later: "i < length queue \<and> queue ! i = grown \<and> ma \<in> set (target_multiaddrs target) \<and>
      toString lib ma \<in> set (map (stringForm lib) addrsToDial) \<and>
      \<not> returnsExisting connections target options"
  then have "toString lib ma \<in> set (job_multiaddrs grown)"
    using strings by blast
  with later show matches: "overlaps lib target grown"
    by (auto simp: overlaps_def)
  moreover have "grown \<in> set queue"
    using later nth_mem [of i queue] by auto
  ultimately have "list_ex (overlaps lib target) queue"
    by (auto simp: list_ex_iff)
  from joinOrAdd_joins [OF this, of init options]
  obtain k where k: "k < length queue" "overlaps lib target (queue ! k)"
    "\<forall>m<k. \<not> overlaps lib target (queue ! m)"
    "joinOrAdd lib init queue target options =
       (JoinedJob k, [''dial-queue:already-in-dial-queue''],
        queue[k := joinJob lib target (queue ! k)])"
    by blast
  have "k \<le> i"
  proof (rule ccontr)
    assume "\<not> k \<le> i"
    then have "i < k" by simp
    with k(3) matches later show False by auto
  qed
  moreover have "(\<forall>m<i. \<not> overlaps lib target (queue ! m)) \<longrightarrow> k = i"
    using k(2) \<open>k \<le> i\<close> by (auto simp: le_less)
  moreover have "dial lib init connections queue target options =
      (JoinedJob k, [''dial-queue:already-in-dial-queue''],
       queue[k := joinJob lib target (queue ! k)])"
    using later k(4) by (simp add: dial_not_returnsExisting)
  ultimately show "\<exists>k\<le>i. overlaps lib target (queue ! k) \<and>
         ((\<forall>m<i. \<not> overlaps lib target (queue ! m)) \<longrightarrow> k = i) \<and>
         dial lib init connections queue target options =
           (JoinedJob k, [''dial-queue:already-in-dial-queue''],
            queue[k := joinJob lib target (queue ! k)]) \<and>
         length (snd (snd (dial lib init connections queue target options))) = length queue"
    using k(2) by (intro exI [of _ k]) simp
qed

lemma startDialJob_knownPeer:
  "startDialJob exampleLib knownPeer exampleInit peerJob =
     Inr (grownJob, [uncertified tcp1Peer])"
  by (simp add: startDialJob_def growJob_def calc_defs checkPeer_def loadFromPeerStore_def
      lookupPeerRouting_def appendPeerId_def Let_def Set_add_def exampleLib_def knownPeer_def
      exampleComponents_def exampleInit_def peerJob_def grownJob_def)

text \<open>
  C10, as stated, fails when the existing-connection check answers the later call.
  The job's set has grown by the resolved address string, the later call targets
  that string, and it returns the open connection to that address instead of
  joining the job.
\<close>

theorem later_dial_counterexample:
  "startDialJob exampleLib knownPeer exampleInit peerJob =
     Inr (grownJob, [uncertified tcp1Peer]) \<and>
   map (toString exampleLib) (target_multiaddrs addrTarget) = [tcp1Peer] \<and>
   dial exampleLib exampleInit [(''QmPeer'', [establishedConnection])] [grownJob] addrTarget
     defaultOptions =
     (AlreadyConnected establishedConnection, [''dial-queue:already-connected''], [grownJob])"
proof -
  have "dial exampleLib exampleInit [(''QmPeer'', [establishedConnection])] [grownJob] addrTarget
      defaultOptions =
      (AlreadyConnected establishedConnection, [''dial-queue:already-connected''], [grownJob])"
    by (simp add: dial_def existingConnection_def establishedConnection_def addrTarget_def
        defaultOptions_def)
  moreover have "map (toString exampleLib) (target_multiaddrs addrTarget) = [tcp1Peer]"
    by (simp add: addrTarget_def exampleLib_def)
  ultimately show ?thesis
    using startDialJob_knownPeer by simp
qed

theorem later_dial_joins_grown_job_witness:
  "startDialJob exampleLib knownPeer exampleInit peerJob =
     Inr (grownJob, [uncertified tcp1Peer]) \<and>
   [grownJob] ! 0 = grownJob \<and>
   tcp1Peer \<in> set (target_multiaddrs addrTarget) \<and>
   toString exampleLib tcp1Peer \<in>
     set (map (stringForm exampleLib) [uncertified tcp1Peer]) \<and>
   \<not> returnsExisting [] addrTarget defaultOptions \<and>
   set (job_multiaddrs grownJob) = {tcp1Peer} \<and>
   dial exampleLib exampleInit [] [grownJob] addrTarget defaultOptions =
     (JoinedJob 0, [''dial-queue:already-in-dial-queue''], [grownJob])"
proof -
  have target: "tcp1Peer \<in> set (target_multiaddrs addrTarget)"
    by (simp add: addrTarget_def)
  have resolved: "toString exampleLib tcp1Peer \<in>
      set (map (stringForm exampleLib) [uncertified tcp1Peer])"
    by (simp add: stringForm_def uncertified_def)
  have noConn: "\<not> returnsExisting [] addrTarget defaultOptions"
    by (simp add: returnsExisting_def existingConnection_def)
  have same: "joinJob exampleLib addrTarget grownJob = grownJob"
    by (simp add: joinJob_def addrTarget_def grownJob_def exampleLib_def Set_add_def)
  have strings: "set (job_multiaddrs grownJob) = {tcp1Peer}"
    using later_dial_joins_grown_job [OF startDialJob_knownPeer]
    by (simp add: peerJob_def stringForm_def uncertified_def exampleLib_def)
  have joined: "dial exampleLib exampleInit [] [grownJob] addrTarget defaultOptions =
      (JoinedJob 0, [''dial-queue:already-in-dial-queue''], [grownJob])"
    using later_dial_joins_grown_job [OF startDialJob_knownPeer, where i = 0
        and queue = "[grownJob]" and ma = "tcp1Peer" and target = addrTarget
        and connections = "[]" and options = defaultOptions]
      target resolved noConn same
    by auto
  show ?thesis
    using startDialJob_knownPeer target resolved noConn strings joined by simp
qed

end
